theory Spec2Isabelle
  imports Main "HOL-Library.Sublist"
begin

section \<open>Python values and strings\<close>

text \<open>
  A decoded JSON document is a value of \<open>json\<close>. A Python \<open>dict\<close> keeps its keys in
  insertion order, so it is an association list; the keys of a dict are distinct, and on
  such lists the functions below do what the dict operations do. Strings are lists of
  characters; a
  character stands for a code point below 256. A float is carried as the text Python
  prints for it (\<open>str(x)\<close>), which is all the converter ever does with one besides
  testing it for zero.
\<close>

datatype json =
    JNull
  | JBool bool
  | JInt int
  | JFloat string
  | JStr string
  | JList "json list"
  | JDict "(string \<times> json) list"

type_synonym pydict = "(string \<times> json) list"

type_synonym row = "(string \<times> string) list"

datatype error = AttributeError string | TypeError string

fun error_message :: "error \<Rightarrow> string" where
  "error_message (AttributeError m) = m"
| "error_message (TypeError m) = m"

text \<open>\<open>k in d\<close>, \<open>d[k]\<close> behind such a test, and \<open>d[k] = v\<close>.\<close>

definition has_key :: "('k \<times> 'v) list \<Rightarrow> 'k \<Rightarrow> bool" where
  "has_key d k = (map_of d k \<noteq> None)"

fun dict_set :: "('k \<times> 'v) list \<Rightarrow> 'k \<Rightarrow> 'v \<Rightarrow> ('k \<times> 'v) list" where
  "dict_set [] k v = [(k, v)]"
| "dict_set ((k', v') # d) k v = (if k' = k then (k, v) # d else (k', v') # dict_set d k v)"

text \<open>Truthiness of a value in a condition.\<close>

fun truthy :: "json \<Rightarrow> bool" where
  "truthy JNull = False"
| "truthy (JBool b) = b"
| "truthy (JInt n) = (n \<noteq> 0)"
| "truthy (JFloat f) = (f \<noteq> ''0.0'' \<and> f \<noteq> ''-0.0'')"
| "truthy (JStr s) = (s \<noteq> [])"
| "truthy (JList xs) = (xs \<noteq> [])"
| "truthy (JDict d) = (d \<noteq> [])"

text \<open>\<open>k in d and d[k]\<close>\<close>

definition has_truthy :: "pydict \<Rightarrow> string \<Rightarrow> bool" where
  "has_truthy d k = (case map_of d k of Some v \<Rightarrow> truthy v | None \<Rightarrow> False)"

subsection \<open>\<open>str\<close> and \<open>repr\<close>\<close>

definition digit_char :: "nat \<Rightarrow> char" where
  "digit_char n = char_of (48 + n)"

fun str_nat :: "nat \<Rightarrow> string" where
  "str_nat n = (if n < 10 then [digit_char n] else str_nat (n div 10) @ [digit_char (n mod 10)])"

declare str_nat.simps [simp del]

definition str_int :: "int \<Rightarrow> string" where
  "str_int i = (if i < 0 then CHR ''-'' # str_nat (nat (- i)) else str_nat (nat i))"

definition hex_digit :: "nat \<Rightarrow> char" where
  "hex_digit n = (if n < 10 then char_of (48 + n) else char_of (87 + n))"

definition escape_char :: "char \<Rightarrow> char \<Rightarrow> string" where
  "escape_char q c =
     (let n = (of_char c :: nat) in
      if c = CHR 0x5C then [CHR 0x5C, CHR 0x5C]
      else if c = q then [CHR 0x5C, q]
      else if c = CHR 0x09 then [CHR 0x5C, CHR ''t'']
      else if c = CHR 0x0A then [CHR 0x5C, CHR ''n'']
      else if c = CHR 0x0D then [CHR 0x5C, CHR ''r'']
      else if n < 32 \<or> n = 127 \<or> (128 \<le> n \<and> n \<le> 160) \<or> n = 173
        then [CHR 0x5C, CHR ''x'', hex_digit (n div 16), hex_digit (n mod 16)]
      else [c])"

definition repr_str :: "string \<Rightarrow> string" where
  "repr_str s =
     (let q = (if CHR 0x27 \<in> set s \<and> CHR 0x22 \<notin> set s then CHR 0x22 else CHR 0x27)
      in q # concat (map (escape_char q) s) @ [q])"

fun join :: "string \<Rightarrow> string list \<Rightarrow> string" where
  "join sep [] = []"
| "join sep [x] = x"
| "join sep (x # y # xs) = x @ sep @ join sep (y # xs)"

fun py_repr :: "json \<Rightarrow> string" where
  "py_repr JNull = ''None''"
| "py_repr (JBool b) = (if b then ''True'' else ''False'')"
| "py_repr (JInt n) = str_int n"
| "py_repr (JFloat f) = f"
| "py_repr (JStr s) = repr_str s"
| "py_repr (JList xs) = ''['' @ join '', '' (map py_repr xs) @ '']''"
| "py_repr (JDict d) =
     ''{'' @ join '', '' (map (\<lambda>kv. repr_str (fst kv) @ '': '' @ py_repr (snd kv)) d) @ ''}''"

definition py_str :: "json \<Rightarrow> string" where
  "py_str v = (case v of JStr s \<Rightarrow> s | _ \<Rightarrow> py_repr v)"

definition type_name :: "json \<Rightarrow> string" where
  "type_name v = (case v of JNull \<Rightarrow> ''NoneType'' | JBool _ \<Rightarrow> ''bool'' | JInt _ \<Rightarrow> ''int''
     | JFloat _ \<Rightarrow> ''float'' | JStr _ \<Rightarrow> ''str'' | JList _ \<Rightarrow> ''list'' | JDict _ \<Rightarrow> ''dict'')"

text \<open>\<open>s.lower()\<close> on code points below 256.\<close>

definition lower_char :: "char \<Rightarrow> char" where
  "lower_char c =
     (let n = (of_char c :: nat) in
      if (65 \<le> n \<and> n \<le> 90) \<or> (192 \<le> n \<and> n \<le> 222 \<and> n \<noteq> 215) then char_of (n + 32) else c)"

definition lower :: "string \<Rightarrow> string" where
  "lower s = map lower_char s"

text \<open>\<open>sub in s\<close> on strings.\<close>

fun starts_with :: "string \<Rightarrow> string \<Rightarrow> bool" where
  "starts_with [] s = True"
| "starts_with (x # xs) [] = False"
| "starts_with (x # xs) (y # ys) = (x = y \<and> starts_with xs ys)"

fun contains_str :: "string \<Rightarrow> string \<Rightarrow> bool" where
  "contains_str sub [] = (sub = [])"
| "contains_str sub (c # s) = (starts_with sub (c # s) \<or> contains_str sub s)"


section \<open>The column headers and the field mapping\<close>

definition STANDARD_HEADERS :: "string list" where
  "STANDARD_HEADERS =
    [''Item ID'', ''Item Name'', ''SKU'', ''Description'', ''Rate'', ''Source'',
     ''Reference ID'', ''Usage unit'', ''Purchase Rate'', ''Purchase Account'', ''Vendor'',
     ''Item Type'', ''Is Combo Product'', ''CF.Manufacturer'', ''CF.URL'', ''CF.Markup'',
     ''CF.Description'', ''CF.Supplier'', ''CF.Material'', ''CF.Cost'']"

text \<open>The dict literal \<open>FIELD_MAPPING\<close>, in the order it is written.\<close>

definition FIELD_MAPPING :: "(string \<times> string) list" where
  "FIELD_MAPPING =
    [(''id'', ''Item ID''),
     (''item_id'', ''Item ID''),
     (''itemId'', ''Item ID''),
     (''product_id'', ''Item ID''),
     (''productId'', ''Item ID''),
     (''name'', ''Item Name''),
     (''item_name'', ''Item Name''),
     (''itemName'', ''Item Name''),
     (''product_name'', ''Item Name''),
     (''productName'', ''Item Name''),
     (''title'', ''Item Name''),
     (''sku'', ''SKU''),
     (''item_sku'', ''SKU''),
     (''itemSku'', ''SKU''),
     (''product_sku'', ''SKU''),
     (''productSku'', ''SKU''),
     (''model'', ''SKU''),
     (''model_number'', ''SKU''),
     (''modelNumber'', ''SKU''),
     (''description'', ''Description''),
     (''item_description'', ''Description''),
     (''itemDescription'', ''Description''),
     (''product_description'', ''Description''),
     (''productDescription'', ''Description''),
     (''details'', ''Description''),
     (''product_details'', ''Description''),
     (''productDetails'', ''Description''),
     (''price'', ''Rate''),
     (''rate'', ''Rate''),
     (''item_price'', ''Rate''),
     (''itemPrice'', ''Rate''),
     (''product_price'', ''Rate''),
     (''productPrice'', ''Rate''),
     (''unit_price'', ''Rate''),
     (''unitPrice'', ''Rate''),
     (''reference_id'', ''Reference ID''),
     (''referenceId'', ''Reference ID''),
     (''ref_id'', ''Reference ID''),
     (''refId'', ''Reference ID''),
     (''external_id'', ''Reference ID''),
     (''externalId'', ''Reference ID''),
     (''unit'', ''Usage unit''),
     (''usage_unit'', ''Usage unit''),
     (''usageUnit'', ''Usage unit''),
     (''measure_unit'', ''Usage unit''),
     (''measureUnit'', ''Usage unit''),
     (''purchase_price'', ''Purchase Rate''),
     (''purchasePrice'', ''Purchase Rate''),
     (''cost_price'', ''Purchase Rate''),
     (''costPrice'', ''Purchase Rate''),
     (''wholesale_price'', ''Purchase Rate''),
     (''wholesalePrice'', ''Purchase Rate''),
     (''category'', ''Item Type''),
     (''item_type'', ''Item Type''),
     (''itemType'', ''Item Type''),
     (''product_type'', ''Item Type''),
     (''productType'', ''Item Type''),
     (''product_category'', ''Item Type''),
     (''productCategory'', ''Item Type''),
     (''manufacturer'', ''CF.Manufacturer''),
     (''brand'', ''CF.Manufacturer''),
     (''maker'', ''CF.Manufacturer''),
     (''url'', ''CF.URL''),
     (''product_url'', ''CF.URL''),
     (''productUrl'', ''CF.URL''),
     (''link'', ''CF.URL''),
     (''web_link'', ''CF.URL''),
     (''webLink'', ''CF.URL''),
     (''material'', ''CF.Material''),
     (''materials'', ''CF.Material''),
     (''item_material'', ''CF.Material''),
     (''itemMaterial'', ''CF.Material''),
     (''product_material'', ''CF.Material''),
     (''productMaterial'', ''CF.Material'')]"

section \<open>The field mapper\<close>

text \<open>The loop \<open>for source, target in FIELD_MAPPING.items()\<close> of \<open>map_field_name\<close>.\<close>

fun scan_mapping :: "(string \<times> string) list \<Rightarrow> string \<Rightarrow> string \<Rightarrow> string" where
  "scan_mapping [] field_lower field_name = field_name"
| "scan_mapping ((source, target) # rest) field_lower field_name =
     (if contains_str source field_lower then target
      else scan_mapping rest field_lower field_name)"

definition map_field_name :: "string \<Rightarrow> string" where
  "map_field_name field_name =
     (let field_lower = lower field_name in
      case map_of FIELD_MAPPING field_lower of
        Some target \<Rightarrow> target
      | None \<Rightarrow> scan_mapping FIELD_MAPPING field_lower field_name)"

section \<open>The price parser\<close>

text \<open>
  The pattern \<open>\$?([\d,]+\.?\d*)\<close>. \<open>match_group\<close> matches the group at the start of
  a string: the longest run of digits and commas, which must not be empty, then a dot
  if one follows, then the digits after it. Every part after the run is optional, so
  the greedy first try is the match. \<open>match_at\<close> puts the optional dollar sign before
  it, and \<open>re_search\<close> tries each position from the left.
\<close>

definition is_digit :: "char \<Rightarrow> bool" where
  "is_digit c = (c \<in> set ''0123456789'')"

definition is_dc :: "char \<Rightarrow> bool" where
  "is_dc c = (is_digit c \<or> c = CHR '','')"

definition match_group :: "string \<Rightarrow> string option" where
  "match_group s =
     (let run = takeWhile is_dc s; rest = dropWhile is_dc s in
      if run = [] then None
      else Some (run @ (case rest of
                          [] \<Rightarrow> []
                        | c # rest' \<Rightarrow> if c = CHR ''.'' then c # takeWhile is_digit rest' else [])))"

definition match_at :: "string \<Rightarrow> string option" where
  "match_at s =
     (case s of
        [] \<Rightarrow> None
      | c # s' \<Rightarrow>
          if c = CHR ''$'' then
            (case match_group s' of Some g \<Rightarrow> Some g | None \<Rightarrow> match_group s)
          else match_group s)"

fun re_search :: "string \<Rightarrow> string option" where
  "re_search [] = None"
| "re_search (c # s) =
     (case match_at (c # s) of Some g \<Rightarrow> Some g | None \<Rightarrow> re_search s)"

definition is_number :: "json \<Rightarrow> bool" where
  "is_number v = (case v of JInt _ \<Rightarrow> True | JBool _ \<Rightarrow> True | JFloat _ \<Rightarrow> True | _ \<Rightarrow> False)"

definition extract_price :: "json \<Rightarrow> string" where
  "extract_price v =
     (if is_number v then py_str v
      else case v of
        JStr s \<Rightarrow>
          (case re_search s of
             Some g \<Rightarrow> filter (\<lambda>c. c \<noteq> CHR '','') g
           | None \<Rightarrow> py_str v)
      | _ \<Rightarrow> py_str v)"

section \<open>The record standardizer\<close>

text \<open>
  The row under construction is the dict \<open>standardized\<close>: the twenty headers in order,
  each with a string. \<open>std_get\<close> reads a column; the source reads only columns that are
  headers, which are present throughout, and \<open>standardized.get\<close> of an absent
  key would be falsy like the empty string.
\<close>

definition std_get :: "row \<Rightarrow> string \<Rightarrow> string" where
  "std_get standardized k = (case map_of standardized k of Some v \<Rightarrow> v | None \<Rightarrow> [])"

definition initial_row :: row where
  "initial_row = map (\<lambda>header. (header, [])) STANDARD_HEADERS"

definition set_defaults :: "row \<Rightarrow> row" where
  "set_defaults s0 =
     (let s1 = dict_set s0 ''Source'' ''HD'';
          s2 = dict_set s1 ''Purchase Account'' ''HD'';
          s3 = dict_set s2 ''Vendor'' ''HD'';
          s4 = dict_set s3 ''CF.Markup'' ''43%''
      in dict_set s4 ''CF.Supplier'' ''HD'')"

definition extract_item_id :: "pydict \<Rightarrow> row \<Rightarrow> row" where
  "extract_item_id record s =
     (case map_of record ''item_id'' of
        Some v \<Rightarrow> dict_set s ''Item ID'' (py_str v)
      | None \<Rightarrow>
          (case map_of record ''model_number'' of
             Some v \<Rightarrow> dict_set s ''Item ID'' (py_str v)
           | None \<Rightarrow> s))"

definition extract_sku :: "pydict \<Rightarrow> row \<Rightarrow> row" where
  "extract_sku record s =
     (case map_of record ''model_number'' of
        Some v \<Rightarrow> dict_set s ''SKU'' (py_str v)
      | None \<Rightarrow>
          (case map_of record ''store_sku'' of
             Some v \<Rightarrow> dict_set s ''SKU'' (py_str v)
           | None \<Rightarrow> s))"

definition extract_identifiers :: "pydict \<Rightarrow> row \<Rightarrow> row" where
  "extract_identifiers record s =
     (case map_of record ''identifiers'' of
        Some (JDict ids) \<Rightarrow>
          (let s1 =
                 (if std_get s ''Item ID'' = [] then
                    (case map_of ids ''product_id'' of
                       Some v \<Rightarrow> dict_set s ''Item ID'' (py_str v)
                     | None \<Rightarrow>
                         (case map_of ids ''item_id'' of
                            Some v \<Rightarrow> dict_set s ''Item ID'' (py_str v)
                          | None \<Rightarrow> s))
                  else s)
           in if std_get s1 ''SKU'' = [] then
                (case map_of ids ''sku'' of
                   Some v \<Rightarrow> dict_set s1 ''SKU'' (py_str v)
                 | None \<Rightarrow>
                     (case map_of ids ''model_number'' of
                        Some v \<Rightarrow> dict_set s1 ''SKU'' (py_str v)
                      | None \<Rightarrow> s1))
              else s1)
      | _ \<Rightarrow> s)"

definition extract_name :: "pydict \<Rightarrow> row \<Rightarrow> row" where
  "extract_name record s =
     (case map_of record ''title'' of
        Some v \<Rightarrow> dict_set s ''Item Name'' (py_str v)
      | None \<Rightarrow>
          (case map_of record ''name'' of
             Some v \<Rightarrow> dict_set s ''Item Name'' (py_str v)
           | None \<Rightarrow> s))"

definition set_description :: "row \<Rightarrow> string \<Rightarrow> row" where
  "set_description s d = dict_set (dict_set s ''Description'' d) ''CF.Description'' d"

definition dict_get :: "pydict \<Rightarrow> string \<Rightarrow> json" where
  "dict_get d k = (case map_of d k of Some v \<Rightarrow> v | None \<Rightarrow> JNull)"

definition extract_description :: "pydict \<Rightarrow> row \<Rightarrow> row" where
  "extract_description record s =
     (if has_truthy record ''description'' then
        set_description s (py_str (dict_get record ''description''))
      else if has_truthy record ''details'' then
        set_description s (py_str (dict_get record ''details''))
      else if has_truthy record ''title'' then
        set_description s (py_str (dict_get record ''title''))
      else if std_get s ''Item Name'' \<noteq> [] then
        set_description s (std_get s ''Item Name'')
      else s)"

text \<open>
  \<open>price_value\<close> after the two lookups: \<open>None\<close> when neither path is present. The
  fallback to the top-level \<open>price\<close> is taken when \<open>price_value is None\<close>.
\<close>

definition price_value :: "pydict \<Rightarrow> string option" where
  "price_value record =
     (let pv = (case map_of record ''buybox_winner'' of
                  Some (JDict bw) \<Rightarrow>
                    (case map_of bw ''price'' of
                       Some raw_price \<Rightarrow> Some (extract_price raw_price)
                     | None \<Rightarrow> None)
                | _ \<Rightarrow> None)
      in if pv = None \<and> has_key record ''price''
         then Some (extract_price (dict_get record ''price''))
         else pv)"

definition set_price :: "pydict \<Rightarrow> row \<Rightarrow> row" where
  "set_price record s =
     (case price_value record of
        Some p \<Rightarrow>
          if p \<noteq> [] then
            dict_set (dict_set (dict_set s ''Rate'' p) ''Purchase Rate'' p) ''CF.Cost'' p
          else s
      | None \<Rightarrow> s)"

definition extract_brand :: "pydict \<Rightarrow> row \<Rightarrow> row" where
  "extract_brand record s =
     (if has_truthy record ''brand''
      then dict_set s ''CF.Manufacturer'' (py_str (dict_get record ''brand''))
      else s)"

definition extract_category :: "pydict \<Rightarrow> row \<Rightarrow> row" where
  "extract_category record s =
     (if has_truthy record ''category'' then
        dict_set s ''Item Type'' (py_str (dict_get record ''category''))
      else
        (case map_of record ''categories'' of
           Some (JList (c # cs)) \<Rightarrow> dict_set s ''Item Type'' (py_str c)
         | _ \<Rightarrow> s))"

definition extract_url :: "pydict \<Rightarrow> row \<Rightarrow> row" where
  "extract_url record s =
     (if has_truthy record ''link'' then
        dict_set s ''CF.URL'' (py_str (dict_get record ''link''))
      else if has_truthy record ''url'' then
        dict_set s ''CF.URL'' (py_str (dict_get record ''url''))
      else s)"

text \<open>
  The loop over \<open>record['specifications']\<close>. \<open>spec['key'].lower()\<close> raises
  AttributeError when the key is not a string.
\<close>

definition no_lower :: "json \<Rightarrow> error" where
  "no_lower v = AttributeError ([CHR 0x27] @ type_name v @ [CHR 0x27] @ '' object has no attribute '' @ [CHR 0x27] @ ''lower'' @ [CHR 0x27])"

fun material_loop :: "json list \<Rightarrow> row \<Rightarrow> error + row" where
  "material_loop [] s = Inr s"
| "material_loop (spec # specs) s =
     (case spec of
        JDict d \<Rightarrow>
          (case map_of d ''key'' of
             Some k \<Rightarrow>
               (case map_of d ''value'' of
                  Some v \<Rightarrow>
                    (case k of
                       JStr ks \<Rightarrow>
                         if lower ks \<in> set [''material'', ''materials'']
                         then material_loop specs (dict_set s ''CF.Material'' (py_str v))
                         else material_loop specs s
                     | _ \<Rightarrow> Inl (no_lower k))
                | None \<Rightarrow> material_loop specs s)
           | None \<Rightarrow> material_loop specs s)
      | _ \<Rightarrow> material_loop specs s)"

definition extract_material :: "pydict \<Rightarrow> row \<Rightarrow> error + row" where
  "extract_material record s =
     (case map_of record ''specifications'' of
        Some (JList specs) \<Rightarrow> material_loop specs s
      | _ \<Rightarrow> Inr s)"

text \<open>The residual pass over \<open>record.items()\<close>.\<close>

definition consumed_fields :: "string list" where
  "consumed_fields =
     [''identifiers'', ''title'', ''name'', ''description'', ''details'', ''price'', ''brand'',
      ''category'', ''categories'', ''link'', ''url'', ''specifications'']"

fun residual_loop :: "pydict \<Rightarrow> row \<Rightarrow> row" where
  "residual_loop [] s = s"
| "residual_loop ((field, v) # rest) s =
     (if field \<in> set consumed_fields then residual_loop rest s
      else
        (let standard_field = map_field_name field in
         if standard_field \<in> set STANDARD_HEADERS \<and> std_get s standard_field = []
         then residual_loop rest (dict_set s standard_field (py_str v))
         else residual_loop rest s))"

definition before_material :: "pydict \<Rightarrow> row" where
  "before_material record =
     (let s1 = set_defaults initial_row;
          s2 = extract_item_id record s1;
          s3 = extract_sku record s2;
          s4 = extract_identifiers record s3;
          s5 = extract_name record s4;
          s6 = extract_description record s5;
          s7 = set_price record s6;
          s8 = extract_brand record s7;
          s9 = extract_category record s8
      in extract_url record s9)"

definition standardize_record :: "pydict \<Rightarrow> error + row" where
  "standardize_record record =
     (case extract_material record (before_material record) of
        Inl e \<Rightarrow> Inl e
      | Inr s \<Rightarrow> Inr (residual_loop record s))"

subsection \<open>Predicates on rows and records used in the statements\<close>

text \<open>A row has exactly the headers as its keys, in their order.\<close>

definition row_keys :: "row \<Rightarrow> bool" where
  "row_keys s = (map fst s = STANDARD_HEADERS)"

definition is_constant_column :: "string \<Rightarrow> bool" where
  "is_constant_column c =
     (c \<in> set [''Source'', ''Purchase Account'', ''Vendor'', ''CF.Markup'', ''CF.Supplier''])"

definition is_price_column :: "string \<Rightarrow> bool" where
  "is_price_column c = (c \<in> set [''Rate'', ''Purchase Rate'', ''CF.Cost''])"

text \<open>
  The entries of \<open>specifications\<close> on which \<open>spec['key'].lower()\<close> is evaluated have a
  string as their key.
\<close>

definition spec_key_ok :: "json \<Rightarrow> bool" where
  "spec_key_ok spec =
     (case spec of
        JDict d \<Rightarrow>
          (case map_of d ''key'' of
             Some k \<Rightarrow>
               (case map_of d ''value'' of
                  Some v \<Rightarrow> (case k of JStr _ \<Rightarrow> True | _ \<Rightarrow> False)
                | None \<Rightarrow> True)
           | None \<Rightarrow> True)
      | _ \<Rightarrow> True)"

definition specifications_ok :: "pydict \<Rightarrow> bool" where
  "specifications_ok record =
     (case map_of record ''specifications'' of
        Some (JList specs) \<Rightarrow> list_all spec_key_ok specs
      | _ \<Rightarrow> True)"

text \<open>The record has a \<open>buybox_winner\<close> mapping with a \<open>price\<close> key.\<close>

definition nested_price :: "pydict \<Rightarrow> bool" where
  "nested_price record =
     (case map_of record ''buybox_winner'' of
        Some (JDict bw) \<Rightarrow> has_key bw ''price''
      | _ \<Rightarrow> False)"

text \<open>No field that the residual pass looks at is mapped to the column \<open>c\<close>.\<close>

definition unmapped :: "pydict \<Rightarrow> string \<Rightarrow> bool" where
  "unmapped record c =
     list_all (\<lambda>fv. fst fv \<in> set consumed_fields \<or> map_field_name (fst fv) \<noteq> c) record"

subsection \<open>A product record and its row\<close>

definition hammer :: pydict where
  "hammer = [(''item_id'', JStr ''42''), (''title'', JStr ''Hammer''),
             (''buybox_winner'', JDict [(''price'', JStr ''$19.99'')])]"

definition hammer_row :: row where
  "hammer_row =
     [(''Item ID'', ''42''), (''Item Name'', ''Hammer''), (''SKU'', []),
      (''Description'', ''Hammer''), (''Rate'', ''19.99''), (''Source'', ''HD''),
      (''Reference ID'', []), (''Usage unit'', []), (''Purchase Rate'', ''19.99''),
      (''Purchase Account'', ''HD''), (''Vendor'', ''HD''), (''Item Type'', []),
      (''Is Combo Product'', []), (''CF.Manufacturer'', []), (''CF.URL'', []),
      (''CF.Markup'', ''43%''), (''CF.Description'', ''Hammer''), (''CF.Supplier'', ''HD''),
      (''CF.Material'', []), (''CF.Cost'', ''19.99'')]"

text \<open>
  A record whose fields carry the names of the five constant columns, with a title and
  a specification whose key is a string, and its row.
\<close>

definition board :: pydict where
  "board = [(''Source'', JStr ''Lowes''), (''Purchase Account'', JStr ''Sales''),
            (''Vendor'', JStr ''ACME''), (''CF.Markup'', JStr ''10%''),
            (''CF.Supplier'', JStr ''ACME''), (''title'', JStr ''Oak board''),
            (''specifications'',
               JList [JDict [(''key'', JStr ''Material''), (''value'', JStr ''oak'')]])]"

definition board_row :: row where
  "board_row =
     [(''Item ID'', []), (''Item Name'', ''Oak board''), (''SKU'', []),
      (''Description'', ''Oak board''), (''Rate'', []), (''Source'', ''HD''),
      (''Reference ID'', []), (''Usage unit'', []), (''Purchase Rate'', []),
      (''Purchase Account'', ''HD''), (''Vendor'', ''HD''), (''Item Type'', []),
      (''Is Combo Product'', []), (''CF.Manufacturer'', []), (''CF.URL'', []),
      (''CF.Markup'', ''43%''), (''CF.Description'', ''Oak board''), (''CF.Supplier'', ''HD''),
      (''CF.Material'', ''oak''), (''CF.Cost'', [])]"

text \<open>A row handed back to the standardizer as a record: a dict of strings.\<close>

definition to_record :: "row \<Rightarrow> pydict" where
  "to_record r = map (\<lambda>kv. (fst kv, JStr (snd kv))) r"

section \<open>Record keys\<close>

text \<open>\<open>s.strip()\<close> removes white space at both ends (code points below 256).\<close>

definition is_space :: "char \<Rightarrow> bool" where
  "is_space c = ((of_char c :: nat) \<in> set [9, 10, 11, 12, 13, 28, 29, 30, 31, 32, 133, 160])"

definition strip :: "string \<Rightarrow> string" where
  "strip s = rev (dropWhile is_space (rev (dropWhile is_space s)))"

text \<open>
  \<open>generate_record_key\<close>. Its last branch reads the clock; \<open>now\<close> is the text of
  \<open>time.time()\<close> at the call.
\<close>

definition generate_record_key :: "string \<Rightarrow> row \<Rightarrow> string" where
  "generate_record_key now record =
     (if std_get record ''Item ID'' \<noteq> [] then ''id:'' @ std_get record ''Item ID''
      else if std_get record ''SKU'' \<noteq> [] then ''sku:'' @ std_get record ''SKU''
      else if std_get record ''Item Name'' \<noteq> [] \<and> std_get record ''Description'' \<noteq> [] then
        (let name = lower (strip (std_get record ''Item Name''));
             desc = lower (strip (std_get record ''Description''))
         in ''name_desc:'' @ name @ ''_'' @ take 50 desc)
      else
        (let values = map snd (filter (\<lambda>kv. snd kv \<noteq> [] \<and> fst kv \<in> set STANDARD_HEADERS) record)
         in if values \<noteq> [] then ''hash:'' @ join ''_'' (take 5 values)
            else ''unknown:'' @ now))"

section \<open>The document shape resolver\<close>

text \<open>
  The test \<open>k in json_data and isinstance(json_data[k], ...)\<close> on a decoded document of
  any type: \<open>Inr (Some v)\<close> when \<open>json_data\<close> is a dict holding \<open>v\<close> at \<open>k\<close>,
  \<open>Inr None\<close> when the membership test is false, and the TypeError Python raises
  otherwise (a number is no container; a list or a string that contains \<open>k\<close> cannot be
  indexed by a string). The message texts are those of CPython 3.11.
\<close>

definition member_value :: "json \<Rightarrow> string \<Rightarrow> error + json option" where
  "member_value json_data k =
     (case json_data of
        JDict d \<Rightarrow> Inr (map_of d k)
      | JList xs \<Rightarrow>
          if JStr k \<in> set xs
          then Inl (TypeError ''list indices must be integers or slices, not str'')
          else Inr None
      | JStr s \<Rightarrow>
          if contains_str k s
          then Inl (TypeError (''string indices must be integers, not '' @ [CHR 0x27] @ ''str'' @ [CHR 0x27]))
          else Inr None
      | _ \<Rightarrow>
          Inl (TypeError (''argument of type '' @ [CHR 0x27] @ type_name json_data @ [CHR 0x27]
                           @ '' is not iterable'')))"

definition is_dict :: "json \<Rightarrow> bool" where
  "is_dict v = (case v of JDict _ \<Rightarrow> True | _ \<Rightarrow> False)"

text \<open>\<open>d.update(e)\<close>\<close>

fun dict_update :: "pydict \<Rightarrow> pydict \<Rightarrow> pydict" where
  "dict_update d [] = d"
| "dict_update d ((k, v) # e) = dict_update (dict_set d k v) e"

text \<open>One element of the \<open>search_results\<close> array: the merged product, if it holds anything.\<close>

definition merge_result :: "json \<Rightarrow> pydict option" where
  "merge_result result =
     (case result of
        JDict r \<Rightarrow>
          (let product_data0 = (case map_of r ''product'' of
                                  Some (JDict p) \<Rightarrow> dict_update [] p
                                | _ \<Rightarrow> []);
               product_data = (case map_of r ''offers'' of
                                 Some (JDict offers) \<Rightarrow> dict_set product_data0 ''offers'' (JDict offers)
                               | _ \<Rightarrow> product_data0)
           in if product_data \<noteq> [] then Some product_data else None)
      | _ \<Rightarrow> None)"

fun collect_some :: "'a option list \<Rightarrow> 'a list" where
  "collect_some [] = []"
| "collect_some (None # xs) = collect_some xs"
| "collect_some (Some x # xs) = x # collect_some xs"

definition product_document :: "pydict \<Rightarrow> pydict \<Rightarrow> pydict" where
  "product_document json_data product =
     (case map_of json_data ''buybox_winner'' of
        Some (JDict bw) \<Rightarrow>
          (let product_data = (case map_of bw ''price'' of
                                 Some price \<Rightarrow> dict_set product ''price'' price
                               | None \<Rightarrow> product)
           in dict_set product_data ''buybox_winner'' (JDict bw))
      | _ \<Rightarrow>
          (case map_of product ''buybox_winner'' of
             Some (JDict bw) \<Rightarrow>
               (case map_of bw ''price'' of
                  Some price \<Rightarrow> dict_set product ''price'' price
                | None \<Rightarrow> product)
           | _ \<Rightarrow> product))"

text \<open>
  \<open>extract_product_data\<close>: a dict, a list, or \<open>None\<close>. The four tests are made in
  the order of the source, each through \<open>member_value\<close>.
\<close>

definition direct_product_list :: "json \<Rightarrow> error + json option" where
  "direct_product_list json_data =
     (case member_value json_data ''products'' of
        Inl e \<Rightarrow> Inl e
      | Inr (Some (JList ps)) \<Rightarrow> Inr (Some (JList ps))
      | Inr _ \<Rightarrow> Inr None)"

definition search_results_data :: "json \<Rightarrow> error + json option" where
  "search_results_data json_data =
     (case member_value json_data ''search_results'' of
        Inl e \<Rightarrow> Inl e
      | Inr (Some (JList results)) \<Rightarrow>
          (let products = collect_some (map merge_result results)
           in Inr (if products \<noteq> [] then Some (JList (map JDict products)) else None))
      | Inr (Some (JDict sr)) \<Rightarrow>
          (case map_of sr ''products'' of
             Some (JList ps) \<Rightarrow>
               (let products = filter is_dict ps
                in Inr (if products \<noteq> [] then Some (JList products) else None))
           | _ \<Rightarrow> direct_product_list json_data)
      | Inr _ \<Rightarrow> direct_product_list json_data)"

definition extract_product_data :: "json \<Rightarrow> error + json option" where
  "extract_product_data json_data =
     (case member_value json_data ''product'' of
        Inl e \<Rightarrow> Inl e
      | Inr (Some (JDict product)) \<Rightarrow>
          (case json_data of
             JDict d \<Rightarrow> Inr (Some (JDict (product_document d product)))
           | _ \<Rightarrow> Inr None)
      | Inr _ \<Rightarrow> search_results_data json_data)"

section \<open>Processing one file\<close>

text \<open>
  What opening, reading and decoding a file gives: a failure while reading (the outer
  handler), a \<open>JSONDecodeError\<close> (the inner handler), each with the text of the
  exception, or the decoded document.
\<close>

datatype file_state = Unreadable string | Undecodable string | Decoded json

text \<open>The four results of \<open>process_json_file\<close> and the shared dict of known keys.\<close>

record file_result =
  standardized_data :: "row list"
  record_count :: nat
  duplicate_count :: nat
  errors :: "string list"
  known :: "string list"

definition empty_result :: "string list \<Rightarrow> file_result" where
  "empty_result known_records =
     \<lparr>standardized_data = [], record_count = 0, duplicate_count = 0, errors = [],
      known = known_records\<rparr>"

text \<open>The body of the two \<open>try\<close> blocks around \<open>standardize_record\<close>.\<close>

definition standardize_item :: "string \<Rightarrow> string \<Rightarrow> pydict \<Rightarrow> file_result \<Rightarrow> file_result" where
  "standardize_item now file_path item st =
     (case standardize_record item of
        Inl e \<Rightarrow>
          st\<lparr>errors := errors st @ [''Error standardizing record in '' @ file_path @ '': '' @ error_message e]\<rparr>
      | Inr standardized \<Rightarrow>
          (let record_key = generate_record_key now standardized in
           if record_key \<in> set (known st) then st\<lparr>duplicate_count := duplicate_count st + 1\<rparr>
           else st\<lparr>known := known st @ [record_key],
                   standardized_data := standardized_data st @ [standardized],
                   record_count := record_count st + 1\<rparr>))"

fun process_items :: "string \<Rightarrow> string \<Rightarrow> json list \<Rightarrow> file_result \<Rightarrow> file_result" where
  "process_items now file_path [] st = st"
| "process_items now file_path (item # items) st =
     (case item of
        JDict d \<Rightarrow> process_items now file_path items (standardize_item now file_path d st)
      | _ \<Rightarrow>
          process_items now file_path items
            (st\<lparr>errors := errors st @ [''Skipped non-dictionary item in '' @ file_path]\<rparr>))"

definition reading_error :: "string \<Rightarrow> string \<Rightarrow> file_result \<Rightarrow> file_result" where
  "reading_error file_path msg st =
     st\<lparr>errors := errors st @ [''Error reading '' @ file_path @ '': '' @ msg]\<rparr>"

definition parsing_error :: "string \<Rightarrow> string \<Rightarrow> file_result \<Rightarrow> file_result" where
  "parsing_error file_path msg st =
     st\<lparr>errors := errors st @ [''Error parsing '' @ file_path @ '': '' @ msg]\<rparr>"

definition process_document :: "string \<Rightarrow> string \<Rightarrow> json \<Rightarrow> file_result \<Rightarrow> file_result" where
  "process_document now file_path json_data st =
     (case member_value json_data ''product'' of
        Inl e \<Rightarrow> reading_error file_path (error_message e) st
      | Inr (Some (JDict product0)) \<Rightarrow>
          (let product =
                 (case member_value json_data ''buybox_winner'' of
                    Inr (Some (JDict bw)) \<Rightarrow> dict_set product0 ''buybox_winner'' (JDict bw)
                  | _ \<Rightarrow> product0)
           in standardize_item now file_path product st)
      | Inr _ \<Rightarrow>
          (case extract_product_data json_data of
             Inl e \<Rightarrow> reading_error file_path (error_message e) st
           | Inr product_data \<Rightarrow>
               (let items =
                      (case product_data of
                         None \<Rightarrow> (case json_data of
                                     JDict d \<Rightarrow> [json_data]
                                   | JList xs \<Rightarrow> xs
                                   | _ \<Rightarrow> [])
                       | Some (JList ps) \<Rightarrow> ps
                       | Some p \<Rightarrow> [p])
                in process_items now file_path items st)))"

definition process_json_file ::
    "string \<Rightarrow> string \<Rightarrow> file_state \<Rightarrow> string list option \<Rightarrow> file_result" where
  "process_json_file now file_path content known_records =
     (let st = empty_result (case known_records of None \<Rightarrow> [] | Some k \<Rightarrow> k) in
      case content of
        Unreadable msg \<Rightarrow> reading_error file_path msg st
      | Undecodable msg \<Rightarrow> parsing_error file_path msg st
      | Decoded json_data \<Rightarrow> process_document now file_path json_data st)"

section \<open>The batch orchestrator\<close>

text \<open>
  The statistics of a run (the elapsed wall-clock time is left out), and the state of
  the loop over the completed tasks: the statistics, \<open>all_errors\<close>, the shared dict of
  known keys (\<open>None\<close> when duplicates are not skipped), the buffer \<open>temp_data\<close> and the
  rows written to the CSV file so far, each row being its cells in the order of the
  headers.
\<close>

record run_stats =
  files_processed :: nat
  files_with_errors :: nat
  records_processed :: nat
  duplicates_skipped :: nat
  stat_errors :: "string list"

record batch_state =
  stats :: run_stats
  all_errors :: "string list"
  known_records :: "string list option"
  temp_data :: "row list"
  written :: "string list list"

definition initial_stats :: run_stats where
  "initial_stats =
     \<lparr>files_processed = 0, files_with_errors = 0, records_processed = 0,
      duplicates_skipped = 0, stat_errors = []\<rparr>"

text \<open>
  \<open>DictWriter.writerow\<close> writes the value of each header, or the empty string for a
  header the row lacks. It raises on a key that is no header; the rows of the
  standardizer have none.
\<close>

definition writerow :: "row \<Rightarrow> string list" where
  "writerow item = map (std_get item) STANDARD_HEADERS"

definition blank_row :: row where
  "blank_row = map (\<lambda>header. (header, [])) STANDARD_HEADERS"

text \<open>
  One turn of the loop \<open>for i, future in enumerate(as_completed(future_to_file))\<close>: the
  result of \<open>process_json_file\<close> on one file is added to the statistics and its rows to
  the buffer, which is written out and cleared once it holds \<open>batch_size\<close> rows. The
  call never raises, so the handler around \<open>future.result()\<close> has nothing to catch; no
  progress callback is given.
\<close>

definition complete_file :: "string \<Rightarrow> int \<Rightarrow> string \<times> file_state \<Rightarrow> batch_state \<Rightarrow> batch_state" where
  "complete_file now batch_size file st =
     (let res = process_json_file now (fst file) (snd file) (known_records st);
          stats1 = (stats st)\<lparr>
             files_processed := files_processed (stats st) + 1,
             records_processed := records_processed (stats st) + record_count res,
             duplicates_skipped := duplicates_skipped (stats st) + duplicate_count res\<rparr>;
          stats2 = (if errors res \<noteq> []
                    then stats1\<lparr>files_with_errors := files_with_errors stats1 + 1\<rparr>
                    else stats1);
          all_errors2 = (if errors res \<noteq> [] then all_errors st @ errors res else all_errors st);
          known2 = (case known_records st of None \<Rightarrow> None | Some _ \<Rightarrow> Some (known res));
          temp = temp_data st @ standardized_data res
      in if int (length temp) \<ge> batch_size
         then st\<lparr>stats := stats2, all_errors := all_errors2, known_records := known2,
                 temp_data := [], written := written st @ map writerow temp\<rparr>
         else st\<lparr>stats := stats2, all_errors := all_errors2, known_records := known2,
                 temp_data := temp\<rparr>)"

text \<open>
  The pool runs \<open>process_json_file\<close> on every file against the one dict of known keys.
  The model runs the files one after the other, in the order in which the tasks
  complete; \<open>json_files\<close> lists them in that order, each with what reading it gives.
\<close>

fun run_files :: "string \<Rightarrow> int \<Rightarrow> (string \<times> file_state) list \<Rightarrow> batch_state \<Rightarrow> batch_state" where
  "run_files now batch_size [] st = st"
| "run_files now batch_size (file # files) st =
     run_files now batch_size files (complete_file now batch_size file st)"

text \<open>
  \<open>combine_json_to_csv\<close> from the opening of the output file on: the header, the blank
  row, the loop, the rows left in the buffer, and the errors moved into the statistics.
\<close>

definition batch_run ::
    "string \<Rightarrow> (string \<times> file_state) list \<Rightarrow> int \<Rightarrow> bool \<Rightarrow> run_stats \<times> string list list" where
  "batch_run now json_files batch_size skip_duplicates =
     (let st0 = \<lparr>stats = initial_stats, all_errors = [],
                  known_records = (if skip_duplicates then Some [] else None),
                  temp_data = [],
                  written = [STANDARD_HEADERS, writerow blank_row]\<rparr>;
          st = run_files now batch_size json_files st0;
          rows = written st @ map writerow (temp_data st)
      in ((stats st)\<lparr>stat_errors := stat_errors (stats st) @ all_errors st\<rparr>, rows))"

text \<open>
  \<open>combine_json_to_csv\<close>. \<open>input_text\<close> is the text of \<open>input_path\<close> in the message for
  an empty list of files; in that case no output file is opened.
\<close>

definition combine_json_to_csv ::
    "string \<Rightarrow> string \<Rightarrow> (string \<times> file_state) list \<Rightarrow> int \<Rightarrow> bool
     \<Rightarrow> run_stats \<times> string list list option" where
  "combine_json_to_csv now input_text json_files batch_size skip_duplicates =
     (if json_files = [] then
        (initial_stats\<lparr>stat_errors := [''No JSON files found matching pattern: '' @ input_text]\<rparr>,
         None)
      else
        (let res = batch_run now json_files batch_size skip_duplicates
         in (fst res, Some (snd res))))"



subsection \<open>Invariants of the loop\<close>

text \<open>
  The file starts with the header and the blank row, and the rows written or buffered
  after them are as many as \<open>records_processed\<close> counts.
\<close>

definition csv_ok :: "batch_state \<Rightarrow> bool" where
  "csv_ok st =
     (take 2 (written st) = [STANDARD_HEADERS, writerow blank_row] \<and> 2 \<le> length (written st)
      \<and> length (written st) + length (temp_data st) = records_processed (stats st) + 2)"



subsection \<open>A batch of three files, the second one truncated\<close>

definition hammer_file :: "string \<times> file_state" where
  "hammer_file = (''a.json'', Decoded (JDict [(''product'', JDict hammer)]))"



section \<open>Description enrichment in the web conversion\<close>


















subsection \<open>A search result with a snippet\<close>



section \<open>Concurrent units on the shared dict of known keys\<close>












section \<open>Properties of the field mapper\<close>

lemma starts_with_prefix: "starts_with sub s \<longleftrightarrow> prefix sub s"
  by (induction sub s rule: starts_with.induct) simp_all

lemma contains_str_sublist: "contains_str sub s \<longleftrightarrow> sublist sub s"
proof (induction s)
  case Nil
  show ?case by simp
next
  case (Cons c s)
  show ?case
  proof (cases sub)
    case Nil
    then show ?thesis by simp
  next
    case (Cons x xs)
    then show ?thesis using Cons.IH
      by (simp add: starts_with_prefix sublist_Cons_right)
  qed
qed

lemma scan_mapping_first:
  "m = pre @ (k, t) # post \<Longrightarrow> contains_str k fl \<Longrightarrow>
   \<forall>kt \<in> set pre. \<not> contains_str (fst kt) fl \<Longrightarrow> scan_mapping m fl f = t"
proof (induction pre arbitrary: m)
  case Nil
  then show ?case by simp
next
  case (Cons a pre)
  obtain k' t' where a: "a = (k', t')" by (cases a)
  from Cons.prems have "\<not> contains_str k' fl" by (simp add: a)
  moreover from Cons.prems have "scan_mapping (pre @ (k, t) # post) fl f = t"
    by (intro Cons.IH) simp_all
  ultimately show ?case using Cons.prems(1) by (simp add: a)
qed

lemma scan_mapping_none:
  "\<forall>kt \<in> set m. \<not> contains_str (fst kt) fl \<Longrightarrow> scan_mapping m fl f = f"
  by (induction m) auto

lemma FIELD_MAPPING_distinct: "distinct (map fst FIELD_MAPPING)"
  by (simp add: FIELD_MAPPING_def)

lemma FIELD_MAPPING_hd: "FIELD_MAPPING = (''id'', ''Item ID'') # tl FIELD_MAPPING"
  by (simp add: FIELD_MAPPING_def)


text \<open>
  Claim C5. \<open>map_field_name\<close> compares the lower-cased name: when it is a key of the
  table the result is that entry's canonical name; when it is not, the result is the
  canonical name of the first entry, in the order of the table, whose key is a substring
  of the lower-cased name; when no key is a substring the name comes back unchanged.
\<close>

theorem map_field_name_resolution:
  "((lower f, target) \<in> set FIELD_MAPPING \<longrightarrow> map_field_name f = target)
   \<and> (lower f \<notin> fst ` set FIELD_MAPPING \<and> FIELD_MAPPING = pre @ (k, t) # post
        \<and> sublist k (lower f) \<and> (\<forall>kt \<in> set pre. \<not> sublist (fst kt) (lower f))
        \<longrightarrow> map_field_name f = t)
   \<and> ((\<forall>kt \<in> set FIELD_MAPPING. \<not> sublist (fst kt) (lower f)) \<longrightarrow> map_field_name f = f)"
proof (intro conjI impI)
  assume "(lower f, target) \<in> set FIELD_MAPPING"
  then have "map_of FIELD_MAPPING (lower f) = Some target"
    using FIELD_MAPPING_distinct by simp
  then show "map_field_name f = target"
    by (simp add: map_field_name_def)
next
  assume h: "lower f \<notin> fst ` set FIELD_MAPPING \<and> FIELD_MAPPING = pre @ (k, t) # post
        \<and> sublist k (lower f) \<and> (\<forall>kt \<in> set pre. \<not> sublist (fst kt) (lower f))"
  then have "map_of FIELD_MAPPING (lower f) = None"
    by (simp add: map_of_eq_None_iff)
  moreover from h have "scan_mapping FIELD_MAPPING (lower f) f = t"
    by (intro scan_mapping_first [of _ pre k t post]) (simp_all add: contains_str_sublist)
  ultimately show "map_field_name f = t"
    by (simp add: map_field_name_def)
next
  assume h: "\<forall>kt \<in> set FIELD_MAPPING. \<not> sublist (fst kt) (lower f)"
  have "lower f \<notin> fst ` set FIELD_MAPPING"
  proof
    assume "lower f \<in> fst ` set FIELD_MAPPING"
    then obtain kt where "kt \<in> set FIELD_MAPPING" "fst kt = lower f" by auto
    with h show False by auto
  qed
  then have "map_of FIELD_MAPPING (lower f) = None"
    by (simp add: map_of_eq_None_iff)
  moreover from h have "scan_mapping FIELD_MAPPING (lower f) f = f"
    by (intro scan_mapping_none) (simp add: contains_str_sublist)
  ultimately show "map_field_name f = f"
    by (simp add: map_field_name_def)
qed

lemma lower_SKU: "lower ''SKU'' = ''sku''" by code_simp
lemma lower_subcategory: "lower ''subcategory'' = ''subcategory''" by code_simp
lemma lower_Colour: "lower ''Colour'' = ''colour''" by code_simp

lemma subcategory_not_key: "''subcategory'' \<notin> fst ` set FIELD_MAPPING"
  by (simp add: FIELD_MAPPING_def)

lemma subcategory_split:
  "FIELD_MAPPING = take 52 FIELD_MAPPING @ (''category'', ''Item Type'') # drop 53 FIELD_MAPPING"
  by (simp add: FIELD_MAPPING_def)

lemma subcategory_first:
  "\<forall>kt \<in> set (take 52 FIELD_MAPPING). \<not> contains_str (fst kt) ''subcategory''"
  by (simp add: FIELD_MAPPING_def)

lemma subcategory_match: "contains_str ''category'' ''subcategory''"
  by simp

lemma colour_no_match: "\<forall>kt \<in> set FIELD_MAPPING. \<not> contains_str (fst kt) ''colour''"
  by (simp add: FIELD_MAPPING_def)

theorem map_field_name_resolution_witness:
  "map_field_name ''SKU'' = ''SKU'' \<and> map_field_name ''subcategory'' = ''Item Type''
   \<and> map_field_name ''Colour'' = ''Colour''"
proof (intro conjI)
  have "(lower ''SKU'', ''SKU'') \<in> set FIELD_MAPPING"
    by (simp add: lower_SKU FIELD_MAPPING_def)
  with map_field_name_resolution [of "''SKU''" "''SKU''"] show "map_field_name ''SKU'' = ''SKU''"
    by simp
next
  have "lower ''subcategory'' \<notin> fst ` set FIELD_MAPPING
        \<and> FIELD_MAPPING = take 52 FIELD_MAPPING @ (''category'', ''Item Type'') # drop 53 FIELD_MAPPING
        \<and> sublist ''category'' (lower ''subcategory'')
        \<and> (\<forall>kt \<in> set (take 52 FIELD_MAPPING). \<not> sublist (fst kt) (lower ''subcategory''))"
    unfolding lower_subcategory contains_str_sublist [symmetric]
    using subcategory_not_key subcategory_split subcategory_first subcategory_match
    by (intro conjI)
  then show "map_field_name ''subcategory'' = ''Item Type''"
    by (rule map_field_name_resolution [of "''subcategory''" _ "take 52 FIELD_MAPPING"
        "''category''" "''Item Type''" "drop 53 FIELD_MAPPING", THEN conjunct2, THEN conjunct1, THEN mp])
next
  have "\<forall>kt \<in> set FIELD_MAPPING. \<not> sublist (fst kt) (lower ''Colour'')"
    using colour_no_match unfolding lower_Colour contains_str_sublist .
  then show "map_field_name ''Colour'' = ''Colour''"
    by (rule map_field_name_resolution [of "''Colour''", THEN conjunct2, THEN conjunct2, THEN mp])
qed

text \<open>
  Claim C10. A name that is not a key of the table once lower-cased, and whose lower-cased
  form contains \<open>id\<close>, maps to \<open>Item ID\<close>: \<open>id\<close> is the first entry of the table.
\<close>

theorem map_field_name_id_substring:
  "lower f \<notin> fst ` set FIELD_MAPPING \<Longrightarrow> sublist ''id'' (lower f) \<Longrightarrow>
   map_field_name f = ''Item ID''"
proof -
  assume nk: "lower f \<notin> fst ` set FIELD_MAPPING" and sub: "sublist ''id'' (lower f)"
  from nk have "map_of FIELD_MAPPING (lower f) = None"
    by (simp add: map_of_eq_None_iff)
  moreover have "scan_mapping FIELD_MAPPING (lower f) f = ''Item ID''"
    using sub by (subst FIELD_MAPPING_hd) (simp add: contains_str_sublist)
  ultimately show ?thesis
    by (simp add: map_field_name_def)
qed

lemma lower_width: "lower ''width'' = ''width''" by code_simp
lemma lower_video: "lower ''Video'' = ''video''" by code_simp
lemma width_not_key: "''width'' \<notin> fst ` set FIELD_MAPPING" by (simp add: FIELD_MAPPING_def)
lemma video_not_key: "''video'' \<notin> fst ` set FIELD_MAPPING" by (simp add: FIELD_MAPPING_def)

theorem map_field_name_id_substring_witness:
  "map_field_name ''width'' = ''Item ID'' \<and> map_field_name ''Video'' = ''Item ID''"
proof
  have "sublist ''id'' ''width''" unfolding contains_str_sublist [symmetric] by simp
  then show "map_field_name ''width'' = ''Item ID''"
    using map_field_name_id_substring [of "''width''"] width_not_key by (simp add: lower_width)
next
  have "sublist ''id'' ''video''" unfolding contains_str_sublist [symmetric] by simp
  then show "map_field_name ''Video'' = ''Item ID''"
    using map_field_name_id_substring [of "''Video''"] video_not_key by (simp add: lower_video)
qed

section \<open>Properties of the price parser\<close>

lemma match_group_not_dc: "s = [] \<or> \<not> is_dc (hd s) \<Longrightarrow> match_group s = None"
  by (cases s) (auto simp: match_group_def)

lemma dot_not_dc: "\<not> is_dc (CHR ''.'')"
  by (simp add: is_dc_def is_digit_def)

lemma dollar_not_dc: "\<not> is_dc (CHR ''$'')"
  by (simp add: is_dc_def is_digit_def)

lemma takeWhile_run:
  "\<forall>c \<in> set body. P c \<Longrightarrow> rest = [] \<or> \<not> P (hd rest) \<Longrightarrow> takeWhile P (body @ rest) = body"
  by (cases rest) (auto simp: takeWhile_append)

lemma dropWhile_run:
  "\<forall>c \<in> set body. P c \<Longrightarrow> rest = [] \<or> \<not> P (hd rest) \<Longrightarrow> dropWhile P (body @ rest) = rest"
  by (cases rest) (auto simp: dropWhile_append)

lemma match_group_decimal:
  assumes "body \<noteq> []" "\<forall>c \<in> set body. is_dc c" "\<forall>c \<in> set frac. is_digit c"
    "post = [] \<or> \<not> is_digit (hd post)"
  shows "match_group (body @ CHR ''.'' # frac @ post) = Some (body @ CHR ''.'' # frac)"
proof -
  have "takeWhile is_dc (body @ CHR ''.'' # frac @ post) = body"
    using assms(2) dot_not_dc by (intro takeWhile_run) simp_all
  moreover have "dropWhile is_dc (body @ CHR ''.'' # frac @ post) = CHR ''.'' # frac @ post"
    using assms(2) dot_not_dc by (intro dropWhile_run) simp_all
  moreover have "takeWhile is_digit (frac @ post) = frac"
    using assms(3,4) by (intro takeWhile_run)
  ultimately show ?thesis using assms(1) by (simp add: match_group_def)
qed

lemma match_group_plain:
  assumes "body \<noteq> []" "\<forall>c \<in> set body. is_dc c"
    "post = [] \<or> (\<not> is_dc (hd post) \<and> hd post \<noteq> CHR ''.'')"
  shows "match_group (body @ post) = Some body"
proof -
  have "takeWhile is_dc (body @ post) = body"
    using assms(2,3) by (intro takeWhile_run) auto
  moreover have "dropWhile is_dc (body @ post) = post"
    using assms(2,3) by (intro dropWhile_run) auto
  moreover have "(case post of [] \<Rightarrow> []
        | c # rest' \<Rightarrow> if c = CHR ''.'' then c # takeWhile is_digit rest' else []) = []"
    using assms(3) by (cases post) auto
  ultimately show ?thesis using assms(1) by (simp add: match_group_def)
qed

lemma match_group_no_dc: "\<forall>c \<in> set s. \<not> is_dc c \<Longrightarrow> match_group s = None"
  by (cases s) (auto simp: match_group_def)

lemma re_search_none: "\<forall>c \<in> set s. \<not> is_dc c \<Longrightarrow> re_search s = None"
  by (induction s) (auto simp: match_at_def match_group_no_dc)

lemma re_search_skip:
  assumes "\<forall>c \<in> set pre. \<not> is_dc c" "match_group rest = Some g"
  shows "re_search (pre @ rest) = Some g"
  using assms(1)
proof (induction pre)
  case Nil
  from assms(2) obtain c rest' where r: "rest = c # rest'"
    by (cases rest) (auto simp: match_group_def)
  from assms(2) r have "is_dc c"
    by (auto simp: match_group_def split: if_splits)
  then have "c \<noteq> CHR ''$''" using dollar_not_dc by auto
  then show ?case using assms(2) r by (simp add: match_at_def)
next
  case (Cons c pre)
  then have nc: "\<not> is_dc c" and ih: "re_search (pre @ rest) = Some g" by simp_all
  from nc have ng: "match_group (c # pre @ rest) = None"
    by (simp add: match_group_not_dc)
  show ?case
  proof (cases "match_group (pre @ rest)")
    case None
    then show ?thesis using ng ih by (auto simp: match_at_def)
  next
    case (Some g')
    have "pre = []"
    proof (rule ccontr)
      assume "pre \<noteq> []"
      then have "\<not> is_dc (hd (pre @ rest))" using Cons.prems by (cases pre) auto
      then have "match_group (pre @ rest) = None" by (simp add: match_group_not_dc)
      with Some show False by simp
    qed
    with Some assms(2) have "g' = g" by simp
    then show ?thesis using ng ih Some by (auto simp: match_at_def)
  qed
qed

text \<open>
  Claim C4, amended. \<open>extract_price\<close> gives a number (int, float, bool) its string
  form. For a string whose first digit or comma starts the run \<open>body\<close> of digits and
  commas (what stands before it, \<open>pre\<close>, may end with the dollar sign), followed or not
  by a dot and the digits \<open>frac\<close>, it returns that run with the commas removed; a run of
  commas alone counts as a match and gives the empty string. A string with no digit and
  no comma, and a value of any other type, comes back as its string form. The function
  is total: no input raises.
\<close>

theorem extract_price_forms:
  "(is_number v \<longrightarrow> extract_price v = py_str v)
   \<and> ((\<forall>c \<in> set pre. \<not> is_dc c) \<and> body \<noteq> [] \<and> (\<forall>c \<in> set body. is_dc c)
        \<and> (\<forall>c \<in> set frac. is_digit c) \<and> (post = [] \<or> \<not> is_digit (hd post))
      \<longrightarrow> extract_price (JStr (pre @ body @ CHR ''.'' # frac @ post))
            = filter (\<lambda>c. c \<noteq> CHR '','') body @ CHR ''.'' # frac)
   \<and> ((\<forall>c \<in> set pre. \<not> is_dc c) \<and> body \<noteq> [] \<and> (\<forall>c \<in> set body. is_dc c)
        \<and> (post = [] \<or> (\<not> is_dc (hd post) \<and> hd post \<noteq> CHR ''.''))
      \<longrightarrow> extract_price (JStr (pre @ body @ post)) = filter (\<lambda>c. c \<noteq> CHR '','') body)
   \<and> ((\<forall>c \<in> set pre. \<not> is_dc c) \<and> body \<noteq> [] \<and> (\<forall>c \<in> set body. c = CHR '','')
        \<and> (post = [] \<or> (\<not> is_dc (hd post) \<and> hd post \<noteq> CHR ''.''))
      \<longrightarrow> extract_price (JStr (pre @ body @ post)) = [])
   \<and> ((\<forall>c \<in> set s. \<not> is_dc c) \<longrightarrow> extract_price (JStr s) = s)
   \<and> (\<not> is_number v \<and> (\<forall>s. v \<noteq> JStr s) \<longrightarrow> extract_price v = py_str v)"
proof (intro conjI impI)
  assume "is_number v"
  then show "extract_price v = py_str v" by (simp add: extract_price_def)
next
  assume h: "(\<forall>c \<in> set pre. \<not> is_dc c) \<and> body \<noteq> [] \<and> (\<forall>c \<in> set body. is_dc c)
        \<and> (\<forall>c \<in> set frac. is_digit c) \<and> (post = [] \<or> \<not> is_digit (hd post))"
  then have "match_group (body @ CHR ''.'' # frac @ post) = Some (body @ CHR ''.'' # frac)"
    by (intro match_group_decimal) simp_all
  with h have "re_search (pre @ body @ CHR ''.'' # frac @ post) = Some (body @ CHR ''.'' # frac)"
    by (intro re_search_skip) simp_all
  moreover have "filter (\<lambda>c. c \<noteq> CHR '','') frac = frac"
    using h by (intro filter_True) (auto simp: is_digit_def)
  ultimately show "extract_price (JStr (pre @ body @ CHR ''.'' # frac @ post))
            = filter (\<lambda>c. c \<noteq> CHR '','') body @ CHR ''.'' # frac"
    by (simp add: extract_price_def is_number_def)
next
  assume h: "(\<forall>c \<in> set pre. \<not> is_dc c) \<and> body \<noteq> [] \<and> (\<forall>c \<in> set body. is_dc c)
        \<and> (post = [] \<or> (\<not> is_dc (hd post) \<and> hd post \<noteq> CHR ''.''))"
  then have "match_group (body @ post) = Some body"
    by (intro match_group_plain) simp_all
  with h have "re_search (pre @ body @ post) = Some body"
    by (intro re_search_skip) simp_all
  then show "extract_price (JStr (pre @ body @ post)) = filter (\<lambda>c. c \<noteq> CHR '','') body"
    by (simp add: extract_price_def is_number_def)
next
  assume h: "(\<forall>c \<in> set pre. \<not> is_dc c) \<and> body \<noteq> [] \<and> (\<forall>c \<in> set body. c = CHR '','')
        \<and> (post = [] \<or> (\<not> is_dc (hd post) \<and> hd post \<noteq> CHR ''.''))"
  then have dc: "\<forall>c \<in> set body. is_dc c" by (simp add: is_dc_def)
  with h have "match_group (body @ post) = Some body"
    by (intro match_group_plain) simp_all
  with h have "re_search (pre @ body @ post) = Some body"
    by (intro re_search_skip) simp_all
  moreover from h have "filter (\<lambda>c. c \<noteq> CHR '','') body = []"
    by (simp add: filter_empty_conv)
  ultimately show "extract_price (JStr (pre @ body @ post)) = []"
    by (simp add: extract_price_def is_number_def)
next
  assume "\<forall>c \<in> set s. \<not> is_dc c"
  then have "re_search s = None" by (rule re_search_none)
  then show "extract_price (JStr s) = s"
    by (simp add: extract_price_def is_number_def py_str_def)
next
  assume "\<not> is_number v \<and> (\<forall>s. v \<noteq> JStr s)"
  then show "extract_price v = py_str v"
    by (cases v) (simp_all add: extract_price_def)
qed

theorem extract_price_forms_witness:
  "extract_price (JInt 1999) = ''1999''
   \<and> extract_price (JStr ''$1,234.56'') = ''1234.56''
   \<and> extract_price (JStr ''USD 1,250 each'') = ''1250''
   \<and> extract_price (JStr ''yes, no'') = []
   \<and> extract_price (JStr ''N/A'') = ''N/A''
   \<and> extract_price JNull = ''None''"
proof (intro conjI)
  have "is_number (JInt 1999)" by (simp add: is_number_def)
  moreover have "py_str (JInt 1999) = ''1999''" by code_simp
  ultimately show "extract_price (JInt 1999) = ''1999''"
    using extract_price_forms [of "JInt 1999", THEN conjunct1] by simp
next
  have "(\<forall>c \<in> set ''$''. \<not> is_dc c) \<and> ''1,234'' \<noteq> [] \<and> (\<forall>c \<in> set ''1,234''. is_dc c)
        \<and> (\<forall>c \<in> set ''56''. is_digit c) \<and> ([] = [] \<or> \<not> is_digit (hd []))"
    by (simp add: is_dc_def is_digit_def)
  from extract_price_forms [of _ "''$''" "''1,234''" "''56''" "[]", THEN conjunct2, THEN conjunct1, THEN mp, OF this]
  show "extract_price (JStr ''$1,234.56'') = ''1234.56''" by simp
next
  have "(\<forall>c \<in> set ''USD ''. \<not> is_dc c) \<and> ''1,250'' \<noteq> [] \<and> (\<forall>c \<in> set ''1,250''. is_dc c)
        \<and> ('' each'' = [] \<or> (\<not> is_dc (hd '' each'') \<and> hd '' each'' \<noteq> CHR ''.''))"
    by (simp add: is_dc_def is_digit_def)
  from extract_price_forms [of _ "''USD ''" "''1,250''" _ "'' each''", THEN conjunct2, THEN conjunct2, THEN conjunct1, THEN mp, OF this]
  show "extract_price (JStr ''USD 1,250 each'') = ''1250''" by simp
next
  have "(\<forall>c \<in> set ''yes''. \<not> is_dc c) \<and> '','' \<noteq> [] \<and> (\<forall>c \<in> set '',''. c = CHR '','')
        \<and> ('' no'' = [] \<or> (\<not> is_dc (hd '' no'') \<and> hd '' no'' \<noteq> CHR ''.''))"
    by (simp add: is_dc_def is_digit_def)
  from extract_price_forms [of _ "''yes''" "'',''" _ "'' no''", THEN conjunct2, THEN conjunct2,
      THEN conjunct2, THEN conjunct1, THEN mp, OF this]
  show "extract_price (JStr ''yes, no'') = []" by simp
next
  have "\<forall>c \<in> set ''N/A''. \<not> is_dc c" by (simp add: is_dc_def is_digit_def)
  from extract_price_forms [THEN conjunct2, THEN conjunct2, THEN conjunct2, THEN conjunct2,
      THEN conjunct1, THEN mp, OF this]
  show "extract_price (JStr ''N/A'') = ''N/A''" .
next
  have "\<not> is_number JNull \<and> (\<forall>s. JNull \<noteq> JStr s)" by (simp add: is_number_def)
  from extract_price_forms [THEN conjunct2, THEN conjunct2, THEN conjunct2, THEN conjunct2,
      THEN conjunct2, THEN mp, OF this]
  show "extract_price JNull = ''None''" by (simp add: py_str_def)
qed

text \<open>
  Claim C4 as stated fails: a string with a comma and no digit has no numeric substring,
  yet it does not come back unchanged; the comma is matched and removed, and the result
  is the empty string.
\<close>

theorem comma_alone_is_matched:
  "extract_price (JStr ''Hello, world'') = [] \<and> extract_price (JStr ''a, b 5'') = []"
  by code_simp

section \<open>Properties of the record standardizer\<close>

lemma map_of_dict_set: "map_of (dict_set d k v) = (map_of d)(k \<mapsto> v)"
  by (induction d) (auto simp: fun_eq_iff)

lemma std_get_dict_set:
  "std_get (dict_set s k v) c = (if c = k then v else std_get s c)"
  by (simp add: std_get_def map_of_dict_set)

lemma keys_dict_set: "k \<in> set (map fst d) \<Longrightarrow> map fst (dict_set d k v) = map fst d"
  by (induction d) force+

lemma row_keys_dict_set:
  "row_keys s \<Longrightarrow> k \<in> set STANDARD_HEADERS \<Longrightarrow> row_keys (dict_set s k v)"
  by (simp add: row_keys_def keys_dict_set)

lemma header_mem:
  "''Item ID'' \<in> set STANDARD_HEADERS" "''Item Name'' \<in> set STANDARD_HEADERS"
  "''SKU'' \<in> set STANDARD_HEADERS" "''Description'' \<in> set STANDARD_HEADERS"
  "''Rate'' \<in> set STANDARD_HEADERS" "''Source'' \<in> set STANDARD_HEADERS"
  "''Reference ID'' \<in> set STANDARD_HEADERS" "''Usage unit'' \<in> set STANDARD_HEADERS"
  "''Purchase Rate'' \<in> set STANDARD_HEADERS" "''Purchase Account'' \<in> set STANDARD_HEADERS"
  "''Vendor'' \<in> set STANDARD_HEADERS" "''Item Type'' \<in> set STANDARD_HEADERS"
  "''Is Combo Product'' \<in> set STANDARD_HEADERS" "''CF.Manufacturer'' \<in> set STANDARD_HEADERS"
  "''CF.URL'' \<in> set STANDARD_HEADERS" "''CF.Markup'' \<in> set STANDARD_HEADERS"
  "''CF.Description'' \<in> set STANDARD_HEADERS" "''CF.Supplier'' \<in> set STANDARD_HEADERS"
  "''CF.Material'' \<in> set STANDARD_HEADERS" "''CF.Cost'' \<in> set STANDARD_HEADERS"
  by (simp_all add: STANDARD_HEADERS_def)

lemmas row_keys_set = row_keys_dict_set [OF _ header_mem(1)] row_keys_dict_set [OF _ header_mem(2)]
  row_keys_dict_set [OF _ header_mem(3)] row_keys_dict_set [OF _ header_mem(4)]
  row_keys_dict_set [OF _ header_mem(5)] row_keys_dict_set [OF _ header_mem(6)]
  row_keys_dict_set [OF _ header_mem(7)] row_keys_dict_set [OF _ header_mem(8)]
  row_keys_dict_set [OF _ header_mem(9)] row_keys_dict_set [OF _ header_mem(10)]
  row_keys_dict_set [OF _ header_mem(11)] row_keys_dict_set [OF _ header_mem(12)]
  row_keys_dict_set [OF _ header_mem(13)] row_keys_dict_set [OF _ header_mem(14)]
  row_keys_dict_set [OF _ header_mem(15)] row_keys_dict_set [OF _ header_mem(16)]
  row_keys_dict_set [OF _ header_mem(17)] row_keys_dict_set [OF _ header_mem(18)]
  row_keys_dict_set [OF _ header_mem(19)] row_keys_dict_set [OF _ header_mem(20)]

lemma row_keys_initial: "row_keys initial_row"
  by (simp add: row_keys_def initial_row_def comp_def)

lemma row_keys_defaults: "row_keys s \<Longrightarrow> row_keys (set_defaults s)"
  by (simp add: set_defaults_def row_keys_set)

lemma row_keys_item_id: "row_keys s \<Longrightarrow> row_keys (extract_item_id record s)"
  by (simp add: extract_item_id_def row_keys_set split: option.splits)

lemma row_keys_sku: "row_keys s \<Longrightarrow> row_keys (extract_sku record s)"
  by (simp add: extract_sku_def row_keys_set split: option.splits)

lemma row_keys_identifiers: "row_keys s \<Longrightarrow> row_keys (extract_identifiers record s)"
  by (simp add: extract_identifiers_def row_keys_set Let_def split: option.splits json.splits)

lemma row_keys_name: "row_keys s \<Longrightarrow> row_keys (extract_name record s)"
  by (simp add: extract_name_def row_keys_set split: option.splits)

lemma row_keys_description: "row_keys s \<Longrightarrow> row_keys (extract_description record s)"
  by (simp add: extract_description_def set_description_def row_keys_set)

lemma row_keys_price: "row_keys s \<Longrightarrow> row_keys (set_price record s)"
  by (simp add: set_price_def row_keys_set split: option.splits)

lemma row_keys_brand: "row_keys s \<Longrightarrow> row_keys (extract_brand record s)"
  by (simp add: extract_brand_def row_keys_set)

lemma row_keys_category: "row_keys s \<Longrightarrow> row_keys (extract_category record s)"
  by (simp add: extract_category_def row_keys_set split: option.splits json.splits list.splits)

lemma row_keys_url: "row_keys s \<Longrightarrow> row_keys (extract_url record s)"
  by (simp add: extract_url_def row_keys_set)

lemma row_keys_before_material: "row_keys (before_material record)"
  by (simp add: before_material_def Let_def row_keys_initial row_keys_defaults row_keys_item_id
      row_keys_sku row_keys_identifiers row_keys_name row_keys_description row_keys_price
      row_keys_brand row_keys_category row_keys_url)

lemma row_keys_material_loop:
  "material_loop specs s = Inr s' \<Longrightarrow> row_keys s \<Longrightarrow> row_keys s'"
  by (induction specs arbitrary: s)
     (auto simp: row_keys_set split: json.splits option.splits if_splits)

lemma row_keys_material:
  "extract_material record s = Inr s' \<Longrightarrow> row_keys s \<Longrightarrow> row_keys s'"
  by (auto simp: extract_material_def row_keys_material_loop split: option.splits json.splits)

lemma row_keys_residual: "row_keys s \<Longrightarrow> row_keys (residual_loop record s)"
  by (induction "record" s rule: residual_loop.induct)
     (simp_all add: Let_def row_keys_dict_set)

lemma row_keys_standardize: "standardize_record record = Inr row \<Longrightarrow> row_keys row"
  by (auto simp: standardize_record_def row_keys_before_material row_keys_residual
      dest: row_keys_material [OF _ row_keys_before_material] split: sum.splits)

lemma std_get_defaults:
  "std_get (set_defaults s) c =
     (if c = ''CF.Supplier'' then ''HD'' else if c = ''CF.Markup'' then ''43%''
      else if c = ''Vendor'' then ''HD'' else if c = ''Purchase Account'' then ''HD''
      else if c = ''Source'' then ''HD'' else std_get s c)"
  by (simp add: set_defaults_def std_get_dict_set)

lemma std_get_initial: "std_get initial_row c = []"
  by (simp add: std_get_def initial_row_def map_of_map_restrict restrict_map_def
      split: option.splits)

lemma frame_item_id: "c \<noteq> ''Item ID'' \<Longrightarrow> std_get (extract_item_id record s) c = std_get s c"
  by (simp add: extract_item_id_def std_get_dict_set split: option.splits)

lemma frame_sku: "c \<noteq> ''SKU'' \<Longrightarrow> std_get (extract_sku record s) c = std_get s c"
  by (simp add: extract_sku_def std_get_dict_set split: option.splits)

lemma frame_identifiers:
  "c \<noteq> ''Item ID'' \<Longrightarrow> c \<noteq> ''SKU'' \<Longrightarrow> std_get (extract_identifiers record s) c = std_get s c"
  by (simp add: extract_identifiers_def std_get_dict_set Let_def split: option.splits json.splits)

lemma frame_name: "c \<noteq> ''Item Name'' \<Longrightarrow> std_get (extract_name record s) c = std_get s c"
  by (simp add: extract_name_def std_get_dict_set split: option.splits)

lemma frame_description:
  "c \<noteq> ''Description'' \<Longrightarrow> c \<noteq> ''CF.Description'' \<Longrightarrow>
   std_get (extract_description record s) c = std_get s c"
  by (simp add: extract_description_def set_description_def std_get_dict_set)

lemma frame_price:
  "c \<noteq> ''Rate'' \<Longrightarrow> c \<noteq> ''Purchase Rate'' \<Longrightarrow> c \<noteq> ''CF.Cost'' \<Longrightarrow>
   std_get (set_price record s) c = std_get s c"
  by (simp add: set_price_def std_get_dict_set split: option.splits)

lemma frame_brand: "c \<noteq> ''CF.Manufacturer'' \<Longrightarrow> std_get (extract_brand record s) c = std_get s c"
  by (simp add: extract_brand_def std_get_dict_set)

lemma frame_category: "c \<noteq> ''Item Type'' \<Longrightarrow> std_get (extract_category record s) c = std_get s c"
  by (simp add: extract_category_def std_get_dict_set split: option.splits json.splits list.splits)

lemma frame_url: "c \<noteq> ''CF.URL'' \<Longrightarrow> std_get (extract_url record s) c = std_get s c"
  by (simp add: extract_url_def std_get_dict_set)

lemma frame_material_loop:
  "material_loop specs s = Inr s' \<Longrightarrow> c \<noteq> ''CF.Material'' \<Longrightarrow> std_get s' c = std_get s c"
  by (induction specs arbitrary: s)
     (auto simp: std_get_dict_set split: json.splits option.splits if_splits)

lemma frame_material:
  "extract_material record s = Inr s' \<Longrightarrow> c \<noteq> ''CF.Material'' \<Longrightarrow> std_get s' c = std_get s c"
  by (auto simp: extract_material_def frame_material_loop split: option.splits json.splits)

lemma residual_keeps_filled:
  "std_get s c \<noteq> [] \<Longrightarrow> std_get (residual_loop record s) c = std_get s c"
proof (induction "record" s rule: residual_loop.induct)
  case (1 s)
  show ?case by simp
next
  case (2 field v rest s)
  let ?sf = "map_field_name field"
  show ?case
  proof (cases "field \<notin> set consumed_fields \<and> ?sf \<in> set STANDARD_HEADERS \<and> std_get s ?sf = []")
    case True
    with "2.prems" have ne: "c \<noteq> ?sf" by auto
    then have "std_get (dict_set s ?sf (py_str v)) c = std_get s c"
      by (simp add: std_get_dict_set)
    with True "2.IH"(2) "2.prems" show ?thesis by (simp add: Let_def)
  next
    case False
    with "2.IH"(1,3) "2.prems" show ?thesis by (auto simp: Let_def)
  qed
qed

lemma residual_unmapped:
  "\<forall>fv \<in> set record. fst fv \<notin> set consumed_fields \<longrightarrow> map_field_name (fst fv) \<noteq> c \<Longrightarrow>
   std_get (residual_loop record s) c = std_get s c"
  by (induction "record" s rule: residual_loop.induct)
     (auto simp: Let_def std_get_dict_set)

lemma before_material_constant:
  "is_constant_column c \<Longrightarrow>
   std_get (before_material record) c = (if c = ''CF.Markup'' then ''43%'' else ''HD'')"
  unfolding is_constant_column_def before_material_def Let_def
  by (auto simp: frame_url frame_category frame_brand frame_price frame_description frame_name
      frame_identifiers frame_sku frame_item_id std_get_defaults)

lemma before_price_empty:
  "is_price_column c \<Longrightarrow>
   std_get (extract_description record (extract_name record (extract_identifiers record
     (extract_sku record (extract_item_id record (set_defaults initial_row)))))) c = []"
  unfolding is_price_column_def
  by (auto simp: frame_description frame_name frame_identifiers frame_sku frame_item_id
      std_get_defaults std_get_initial)

lemma before_material_price:
  "is_price_column c \<Longrightarrow>
   std_get (before_material record) c =
     (case price_value record of Some p \<Rightarrow> p | None \<Rightarrow> [])"
proof -
  assume c: "is_price_column c"
  let ?s6 = "extract_description record (extract_name record (extract_identifiers record
     (extract_sku record (extract_item_id record (set_defaults initial_row)))))"
  have "std_get (before_material record) c = std_get (set_price record ?s6) c"
    using c unfolding is_price_column_def before_material_def Let_def
    by (auto simp: frame_url frame_category frame_brand)
  also have "\<dots> = (case price_value record of Some p \<Rightarrow> p | None \<Rightarrow> [])"
    using c before_price_empty [OF c, of "record"] unfolding is_price_column_def
    by (auto simp: set_price_def std_get_dict_set split: option.splits)
  finally show ?thesis .
qed

lemma material_loop_total:
  "list_all spec_key_ok specs \<Longrightarrow> \<exists>s'. material_loop specs s = Inr s'"
  by (induction specs arbitrary: s)
     (auto simp: spec_key_ok_def split: json.splits option.splits)

lemma material_loop_raises:
  "\<not> list_all spec_key_ok specs \<Longrightarrow> \<exists>e. material_loop specs s = Inl e"
  by (induction specs arbitrary: s)
     (auto simp: spec_key_ok_def split: json.splits option.splits)

lemma standardize_record_returns:
  "(\<exists>row. standardize_record record = Inr row) \<longleftrightarrow> specifications_ok record"
proof (cases "specifications_ok record")
  case True
  then have "\<exists>s'. extract_material record (before_material record) = Inr s'"
    by (auto simp: specifications_ok_def extract_material_def material_loop_total
        split: option.splits json.splits)
  with True show ?thesis by (auto simp: standardize_record_def)
next
  case False
  then obtain specs where "map_of record ''specifications'' = Some (JList specs)"
      "\<not> list_all spec_key_ok specs"
    by (auto simp: specifications_ok_def split: option.splits json.splits)
  then have "\<exists>e. extract_material record (before_material record) = Inl e"
    by (simp add: extract_material_def material_loop_raises)
  with False show ?thesis by (auto simp: standardize_record_def)
qed

lemma standardize_record_constant:
  assumes "standardize_record record = Inr row" "is_constant_column c"
  shows "std_get row c = (if c = ''CF.Markup'' then ''43%'' else ''HD'')"
proof -
  from assms(1) obtain s where m: "extract_material record (before_material record) = Inr s"
    and r: "row = residual_loop record s"
    by (auto simp: standardize_record_def split: sum.splits)
  from assms(2) have "c \<noteq> ''CF.Material''" by (auto simp: is_constant_column_def)
  with m have "std_get s c = std_get (before_material record) c" by (rule frame_material)
  with assms(2) have s: "std_get s c = (if c = ''CF.Markup'' then ''43%'' else ''HD'')"
    by (simp add: before_material_constant)
  then have "std_get s c \<noteq> []" by auto
  then have "std_get (residual_loop record s) c = std_get s c" by (rule residual_keeps_filled)
  with r s show ?thesis by simp
qed

text \<open>
  Claim C2, amended. \<open>standardize_record\<close> returns a row exactly for the inputs whose
  \<open>specifications\<close> entries with a key and a value have a string as key (on the others
  \<open>spec['key'].lower()\<close> raises). Every row it returns has the twenty canonical column
  names as its keys, in their order, each with a string, and the five constant columns
  carry \<open>HD\<close>, \<open>HD\<close>, \<open>HD\<close>, \<open>43%\<close> and \<open>HD\<close> whatever the input holds.
\<close>

theorem standardize_record_row:
  "((\<exists>row. standardize_record record = Inr row) \<longleftrightarrow> specifications_ok record)
   \<and> (\<forall>row. standardize_record record = Inr row \<longrightarrow>
        map fst row = STANDARD_HEADERS \<and> length row = 20
        \<and> std_get row ''Source'' = ''HD'' \<and> std_get row ''Purchase Account'' = ''HD''
        \<and> std_get row ''Vendor'' = ''HD'' \<and> std_get row ''CF.Markup'' = ''43%''
        \<and> std_get row ''CF.Supplier'' = ''HD'')"
proof (intro conjI allI impI)
  show "(\<exists>row. standardize_record record = Inr row) \<longleftrightarrow> specifications_ok record"
    by (rule standardize_record_returns)
next
  fix row assume r: "standardize_record record = Inr row"
  then have k: "map fst row = STANDARD_HEADERS"
    using row_keys_standardize by (simp add: row_keys_def)
  then show "map fst row = STANDARD_HEADERS" .
  from k have "length (map fst row) = 20" by (simp add: STANDARD_HEADERS_def)
  then show "length row = 20" by simp
  show "std_get row ''Source'' = ''HD''"
    using standardize_record_constant [OF r, of "''Source''"] by (simp add: is_constant_column_def)
  show "std_get row ''Purchase Account'' = ''HD''"
    using standardize_record_constant [OF r, of "''Purchase Account''"]
    by (simp add: is_constant_column_def)
  show "std_get row ''Vendor'' = ''HD''"
    using standardize_record_constant [OF r, of "''Vendor''"] by (simp add: is_constant_column_def)
  show "std_get row ''CF.Markup'' = ''43%''"
    using standardize_record_constant [OF r, of "''CF.Markup''"] by (simp add: is_constant_column_def)
  show "std_get row ''CF.Supplier'' = ''HD''"
    using standardize_record_constant [OF r, of "''CF.Supplier''"]
    by (simp add: is_constant_column_def)
qed

text \<open>
  Claim C2 as stated fails: on a record whose specification has the number 1 as key, the
  standardizer raises and returns no row.
\<close>

theorem standardize_record_raises:
  "standardize_record
     [(''title'', JStr ''Oak board''),
      (''specifications'', JList [JDict [(''key'', JInt 1), (''value'', JStr ''oak'')]])]
   = Inl (no_lower (JInt 1))"
  by code_simp

lemma empty_record_row:
  "standardize_record [] =
     Inr [(''Item ID'', []), (''Item Name'', []), (''SKU'', []), (''Description'', []),
          (''Rate'', []), (''Source'', ''HD''), (''Reference ID'', []), (''Usage unit'', []),
          (''Purchase Rate'', []), (''Purchase Account'', ''HD''), (''Vendor'', ''HD''),
          (''Item Type'', []), (''Is Combo Product'', []), (''CF.Manufacturer'', []),
          (''CF.URL'', []), (''CF.Markup'', ''43%''), (''CF.Description'', []),
          (''CF.Supplier'', ''HD''), (''CF.Material'', []), (''CF.Cost'', [])]"
  by code_simp

lemma board_standardized: "standardize_record board = Inr board_row"
  by code_simp

lemma board_specifications: "specifications_ok board"
  by (simp add: board_def specifications_ok_def spec_key_ok_def)

theorem standardize_record_row_witness:
  "specifications_ok board \<and> standardize_record board = Inr board_row
   \<and> map fst board_row = STANDARD_HEADERS \<and> length board_row = 20
   \<and> std_get board_row ''Source'' = ''HD'' \<and> std_get board_row ''Purchase Account'' = ''HD''
   \<and> std_get board_row ''Vendor'' = ''HD'' \<and> std_get board_row ''CF.Markup'' = ''43%''
   \<and> std_get board_row ''CF.Supplier'' = ''HD''
   \<and> specifications_ok [] \<and>
   standardize_record [] =
     Inr [(''Item ID'', []), (''Item Name'', []), (''SKU'', []), (''Description'', []),
          (''Rate'', []), (''Source'', ''HD''), (''Reference ID'', []), (''Usage unit'', []),
          (''Purchase Rate'', []), (''Purchase Account'', ''HD''), (''Vendor'', ''HD''),
          (''Item Type'', []), (''Is Combo Product'', []), (''CF.Manufacturer'', []),
          (''CF.URL'', []), (''CF.Markup'', ''43%''), (''CF.Description'', []),
          (''CF.Supplier'', ''HD''), (''CF.Material'', []), (''CF.Cost'', [])]"
proof -
  from standardize_record_row [of board] board_specifications
  obtain row where r: "standardize_record board = Inr row"
    by blast
  with board_standardized have e: "row = board_row" by simp
  from standardize_record_row [of board] r
  have "map fst row = STANDARD_HEADERS \<and> length row = 20
        \<and> std_get row ''Source'' = ''HD'' \<and> std_get row ''Purchase Account'' = ''HD''
        \<and> std_get row ''Vendor'' = ''HD'' \<and> std_get row ''CF.Markup'' = ''43%''
        \<and> std_get row ''CF.Supplier'' = ''HD''"
    by blast
  moreover have "specifications_ok []" by (simp add: specifications_ok_def)
  ultimately show ?thesis
    using board_specifications board_standardized empty_record_row unfolding e by simp
qed

lemma standardize_record_price_column:
  assumes "standardize_record record = Inr row" "is_price_column c"
    and "pv \<noteq> [] \<or> unmapped record c"
    and "(case price_value record of Some p \<Rightarrow> p | None \<Rightarrow> []) = pv"
  shows "std_get row c = pv"
proof -
  from assms(1) obtain s where m: "extract_material record (before_material record) = Inr s"
    and r: "row = residual_loop record s"
    by (auto simp: standardize_record_def split: sum.splits)
  from assms(2) have "c \<noteq> ''CF.Material''" by (auto simp: is_price_column_def)
  with m have "std_get s c = std_get (before_material record) c" by (rule frame_material)
  with assms(2,4) have s: "std_get s c = pv"
    by (simp add: before_material_price)
  from assms(3) show ?thesis
  proof
    assume "pv \<noteq> []"
    with s have "std_get s c \<noteq> []" by simp
    then have "std_get (residual_loop record s) c = std_get s c" by (rule residual_keeps_filled)
    with r s show ?thesis by simp
  next
    assume "unmapped record c"
    then have "\<forall>fv \<in> set record. fst fv \<notin> set consumed_fields \<longrightarrow> map_field_name (fst fv) \<noteq> c"
      by (auto simp: unmapped_def list_all_iff)
    then have "std_get (residual_loop record s) c = std_get s c" by (rule residual_unmapped)
    with r s show ?thesis by simp
  qed
qed

lemma price_value_nested:
  "map_of record ''buybox_winner'' = Some (JDict bw) \<Longrightarrow> map_of bw ''price'' = Some raw \<Longrightarrow>
   price_value record = Some (extract_price raw)"
  by (simp add: price_value_def)

lemma price_value_top:
  "\<not> nested_price record \<Longrightarrow> map_of record ''price'' = Some raw \<Longrightarrow>
   price_value record = Some (extract_price raw)"
  by (auto simp: price_value_def nested_price_def has_key_def dict_get_def
      split: option.splits json.splits)

lemma price_value_none:
  "\<not> nested_price record \<Longrightarrow> map_of record ''price'' = None \<Longrightarrow> price_value record = None"
  by (auto simp: price_value_def nested_price_def has_key_def split: option.splits json.splits)

text \<open>
  Claim C1, amended. On every record for which the standardizer returns a row: with a
  \<open>buybox_winner\<close> mapping that has a \<open>price\<close> key, the price value is \<open>extract_price\<close>
  of that nested price, and the top-level \<open>price\<close> is not consulted even when the nested
  one is empty; without it, the price value is \<open>extract_price\<close> of the top-level
  \<open>price\<close> when the record has one, and there is none otherwise. Each of Rate, Purchase
  Rate and CF.Cost equals the price value when that is not empty; when it is empty or
  missing the column is empty provided the residual pass maps no field to it.
\<close>

theorem standardize_record_price:
  assumes "standardize_record record = Inr row" and "is_price_column c"
  shows
    "(map_of record ''buybox_winner'' = Some (JDict bw) \<and> map_of bw ''price'' = Some raw
        \<and> (extract_price raw \<noteq> [] \<or> unmapped record c)
      \<longrightarrow> std_get row c = extract_price raw)
     \<and> (\<not> nested_price record \<and> map_of record ''price'' = Some raw
        \<and> (extract_price raw \<noteq> [] \<or> unmapped record c)
      \<longrightarrow> std_get row c = extract_price raw)
     \<and> (\<not> nested_price record \<and> map_of record ''price'' = None \<and> unmapped record c
      \<longrightarrow> std_get row c = [])"
proof (intro conjI impI)
  assume h: "map_of record ''buybox_winner'' = Some (JDict bw) \<and> map_of bw ''price'' = Some raw
        \<and> (extract_price raw \<noteq> [] \<or> unmapped record c)"
  then have "price_value record = Some (extract_price raw)" by (simp add: price_value_nested)
  with h show "std_get row c = extract_price raw"
    by (intro standardize_record_price_column [OF assms]) simp_all
next
  assume h: "\<not> nested_price record \<and> map_of record ''price'' = Some raw
        \<and> (extract_price raw \<noteq> [] \<or> unmapped record c)"
  then have "price_value record = Some (extract_price raw)" by (simp add: price_value_top)
  with h show "std_get row c = extract_price raw"
    by (intro standardize_record_price_column [OF assms]) simp_all
next
  assume h: "\<not> nested_price record \<and> map_of record ''price'' = None \<and> unmapped record c"
  then have "price_value record = None" by (simp add: price_value_none)
  with h show "std_get row c = []"
    by (intro standardize_record_price_column [OF assms]) simp_all
qed

lemma hammer_standardized: "standardize_record hammer = Inr hammer_row"
  by code_simp

lemma hammer_price: "extract_price (JStr ''$19.99'') = ''19.99''"
  by code_simp

theorem standardize_record_price_witness:
  "standardize_record hammer = Inr hammer_row \<and> is_price_column ''Purchase Rate''
   \<and> std_get hammer_row ''Purchase Rate'' = ''19.99''"
proof -
  have c: "is_price_column ''Purchase Rate''" by (simp add: is_price_column_def)
  have "map_of hammer ''buybox_winner'' = Some (JDict [(''price'', JStr ''$19.99'')])
        \<and> map_of [(''price'', JStr ''$19.99'')] ''price'' = Some (JStr ''$19.99'')
        \<and> (extract_price (JStr ''$19.99'') \<noteq> [] \<or> unmapped hammer ''Purchase Rate'')"
    by (simp add: hammer_def hammer_price)
  from standardize_record_price [OF hammer_standardized c, THEN conjunct1, THEN mp, OF this]
  show ?thesis using hammer_standardized c by (simp add: hammer_price)
qed

text \<open>
  Claim C1 as stated fails: with an empty nested price and a top-level price of 5, the
  three price columns stay empty instead of holding 5.
\<close>

theorem empty_nested_price_no_fallback:
  "standardize_record
     [(''buybox_winner'', JDict [(''price'', JStr [])]), (''price'', JStr ''5'')]
   = Inr [(''Item ID'', []), (''Item Name'', []), (''SKU'', []), (''Description'', []),
          (''Rate'', []), (''Source'', ''HD''), (''Reference ID'', []), (''Usage unit'', []),
          (''Purchase Rate'', []), (''Purchase Account'', ''HD''), (''Vendor'', ''HD''),
          (''Item Type'', []), (''Is Combo Product'', []), (''CF.Manufacturer'', []),
          (''CF.URL'', []), (''CF.Markup'', ''43%''), (''CF.Description'', []),
          (''CF.Supplier'', ''HD''), (''CF.Material'', []), (''CF.Cost'', [])]
   \<and> extract_price (JStr ''5'') = ''5''"
  by code_simp

section \<open>Standardizing a row again\<close>

lemma header_maps:
  "map_field_name ''Item ID'' = ''Item ID''"
  "map_field_name ''Item Name'' = ''Item Name''"
  "map_field_name ''SKU'' = ''SKU''"
  "map_field_name ''Description'' = ''Description''"
  "map_field_name ''Rate'' = ''Rate''"
  "map_field_name ''Source'' = ''Source''"
  "map_field_name ''Reference ID'' = ''Item ID''"
  "map_field_name ''Usage unit'' = ''Usage unit''"
  "map_field_name ''Purchase Rate'' = ''Rate''"
  "map_field_name ''Purchase Account'' = ''Purchase Account''"
  "map_field_name ''Vendor'' = ''Vendor''"
  "map_field_name ''Item Type'' = ''Item Type''"
  "map_field_name ''Is Combo Product'' = ''Is Combo Product''"
  "map_field_name ''CF.Manufacturer'' = ''CF.Manufacturer''"
  "map_field_name ''CF.URL'' = ''CF.URL''"
  "map_field_name ''CF.Markup'' = ''CF.Markup''"
  "map_field_name ''CF.Description'' = ''Description''"
  "map_field_name ''CF.Supplier'' = ''CF.Supplier''"
  "map_field_name ''CF.Material'' = ''CF.Material''"
  "map_field_name ''CF.Cost'' = ''CF.Cost''"
  by code_simp+

lemma defaults_row:
  "set_defaults initial_row =
     [(''Item ID'', []), (''Item Name'', []), (''SKU'', []), (''Description'', []),
      (''Rate'', []), (''Source'', ''HD''), (''Reference ID'', []), (''Usage unit'', []),
      (''Purchase Rate'', []), (''Purchase Account'', ''HD''), (''Vendor'', ''HD''),
      (''Item Type'', []), (''Is Combo Product'', []), (''CF.Manufacturer'', []),
      (''CF.URL'', []), (''CF.Markup'', ''43%''), (''CF.Description'', []),
      (''CF.Supplier'', ''HD''), (''CF.Material'', []), (''CF.Cost'', [])]"
  by (simp add: set_defaults_def initial_row_def STANDARD_HEADERS_def)

lemma before_material_row:
  "before_material
     [(''Item ID'', JStr a1), (''Item Name'', JStr a2), (''SKU'', JStr a3),
      (''Description'', JStr a4), (''Rate'', JStr a5), (''Source'', JStr a6),
      (''Reference ID'', JStr a7), (''Usage unit'', JStr a8), (''Purchase Rate'', JStr a9),
      (''Purchase Account'', JStr a10), (''Vendor'', JStr a11), (''Item Type'', JStr a12),
      (''Is Combo Product'', JStr a13), (''CF.Manufacturer'', JStr a14), (''CF.URL'', JStr a15),
      (''CF.Markup'', JStr a16), (''CF.Description'', JStr a17), (''CF.Supplier'', JStr a18),
      (''CF.Material'', JStr a19), (''CF.Cost'', JStr a20)]
   = set_defaults initial_row"
  by (simp add: before_material_def extract_item_id_def extract_sku_def extract_identifiers_def
      extract_name_def extract_description_def set_price_def price_value_def extract_brand_def
      extract_category_def extract_url_def has_truthy_def has_key_def defaults_row std_get_def)


lemma consumed_headers:
  "''Item ID'' \<notin> set consumed_fields" "''Item Name'' \<notin> set consumed_fields"
  "''SKU'' \<notin> set consumed_fields" "''Description'' \<notin> set consumed_fields"
  "''Rate'' \<notin> set consumed_fields" "''Source'' \<notin> set consumed_fields"
  "''Reference ID'' \<notin> set consumed_fields" "''Usage unit'' \<notin> set consumed_fields"
  "''Purchase Rate'' \<notin> set consumed_fields" "''Purchase Account'' \<notin> set consumed_fields"
  "''Vendor'' \<notin> set consumed_fields" "''Item Type'' \<notin> set consumed_fields"
  "''Is Combo Product'' \<notin> set consumed_fields" "''CF.Manufacturer'' \<notin> set consumed_fields"
  "''CF.URL'' \<notin> set consumed_fields" "''CF.Markup'' \<notin> set consumed_fields"
  "''CF.Description'' \<notin> set consumed_fields" "''CF.Supplier'' \<notin> set consumed_fields"
  "''CF.Material'' \<notin> set consumed_fields" "''CF.Cost'' \<notin> set consumed_fields"
  by (simp_all add: consumed_fields_def)

lemma residual_row:
  "residual_loop
     [(''Item ID'', JStr a1), (''Item Name'', JStr a2), (''SKU'', JStr a3),
      (''Description'', JStr a4), (''Rate'', JStr a5), (''Source'', JStr a6),
      (''Reference ID'', JStr a7), (''Usage unit'', JStr a8), (''Purchase Rate'', JStr a9),
      (''Purchase Account'', JStr a10), (''Vendor'', JStr a11), (''Item Type'', JStr a12),
      (''Is Combo Product'', JStr a13), (''CF.Manufacturer'', JStr a14), (''CF.URL'', JStr a15),
      (''CF.Markup'', JStr a16), (''CF.Description'', JStr a17), (''CF.Supplier'', JStr a18),
      (''CF.Material'', JStr a19), (''CF.Cost'', JStr a20)]
     (set_defaults initial_row)
   = [(''Item ID'', if a1 = [] then a7 else a1), (''Item Name'', a2), (''SKU'', a3),
      (''Description'', if a4 = [] then a17 else a4), (''Rate'', if a5 = [] then a9 else a5),
      (''Source'', ''HD''), (''Reference ID'', []), (''Usage unit'', a8),
      (''Purchase Rate'', []), (''Purchase Account'', ''HD''), (''Vendor'', ''HD''),
      (''Item Type'', a12), (''Is Combo Product'', a13), (''CF.Manufacturer'', a14),
      (''CF.URL'', a15), (''CF.Markup'', ''43%''), (''CF.Description'', []),
      (''CF.Supplier'', ''HD''), (''CF.Material'', a19), (''CF.Cost'', a20)]"
  by (simp add: defaults_row header_maps consumed_headers header_mem std_get_def py_str_def Let_def)


lemma restandardize_explicit:
  "standardize_record (to_record
     [(''Item ID'', a1), (''Item Name'', a2), (''SKU'', a3),
      (''Description'', a4), (''Rate'', a5), (''Source'', a6),
      (''Reference ID'', a7), (''Usage unit'', a8), (''Purchase Rate'', a9),
      (''Purchase Account'', a10), (''Vendor'', a11), (''Item Type'', a12),
      (''Is Combo Product'', a13), (''CF.Manufacturer'', a14), (''CF.URL'', a15),
      (''CF.Markup'', a16), (''CF.Description'', a17), (''CF.Supplier'', a18),
      (''CF.Material'', a19), (''CF.Cost'', a20)])
   = Inr
     [(''Item ID'', if a1 = [] then a7 else a1), (''Item Name'', a2), (''SKU'', a3),
      (''Description'', if a4 = [] then a17 else a4), (''Rate'', if a5 = [] then a9 else a5),
      (''Source'', ''HD''), (''Reference ID'', []), (''Usage unit'', a8),
      (''Purchase Rate'', []), (''Purchase Account'', ''HD''), (''Vendor'', ''HD''),
      (''Item Type'', a12), (''Is Combo Product'', a13), (''CF.Manufacturer'', a14),
      (''CF.URL'', a15), (''CF.Markup'', ''43%''), (''CF.Description'', []),
      (''CF.Supplier'', ''HD''), (''CF.Material'', a19), (''CF.Cost'', a20)]"
proof -
  let ?rec = "[(''Item ID'', JStr a1), (''Item Name'', JStr a2), (''SKU'', JStr a3),
      (''Description'', JStr a4), (''Rate'', JStr a5), (''Source'', JStr a6),
      (''Reference ID'', JStr a7), (''Usage unit'', JStr a8), (''Purchase Rate'', JStr a9),
      (''Purchase Account'', JStr a10), (''Vendor'', JStr a11), (''Item Type'', JStr a12),
      (''Is Combo Product'', JStr a13), (''CF.Manufacturer'', JStr a14), (''CF.URL'', JStr a15),
      (''CF.Markup'', JStr a16), (''CF.Description'', JStr a17), (''CF.Supplier'', JStr a18),
      (''CF.Material'', JStr a19), (''CF.Cost'', JStr a20)]"
  have m: "extract_material ?rec (set_defaults initial_row) = Inr (set_defaults initial_row)"
    by (simp add: extract_material_def)
  show ?thesis
    unfolding to_record_def list.map fst_conv snd_conv standardize_record_def before_material_row m
    by (simp only: sum.case residual_row)
qed

lemma std_get_Cons: "std_get ((k, v) # r) c = (if k = c then v else std_get r c)"
  by (simp add: std_get_def)

lemma row_as_map:
  "map fst r = ks \<Longrightarrow> distinct ks \<Longrightarrow> r = map (\<lambda>k. (k, std_get r k)) ks"
proof (induction r arbitrary: ks)
  case Nil
  then show ?case by simp
next
  case (Cons kv r)
  obtain k v where kv: "kv = (k, v)" by (cases kv)
  from Cons.prems kv obtain ks' where ks: "ks = k # ks'" "map fst r = ks'" "k \<notin> set ks'" "distinct ks'"
    by auto
  from Cons.IH [OF ks(2) ks(4)] have ih: "r = map (\<lambda>k. (k, std_get r k)) ks'" .
  have "map (\<lambda>c. (c, std_get ((k, v) # r) c)) ks' = map (\<lambda>c. (c, std_get r c)) ks'"
    using ks(3) by (intro map_cong) (auto simp: std_get_Cons)
  with ih have "map (\<lambda>c. (c, std_get ((k, v) # r) c)) ks' = r" by simp
  then show ?case by (simp add: kv ks(1) std_get_Cons)
qed

lemma STANDARD_HEADERS_distinct: "distinct STANDARD_HEADERS"
  by (simp add: STANDARD_HEADERS_def)

lemma row_explicit:
  assumes "map fst (r :: row) = STANDARD_HEADERS"
  shows "r = [(''Item ID'', std_get r ''Item ID''), (''Item Name'', std_get r ''Item Name''),
      (''SKU'', std_get r ''SKU''), (''Description'', std_get r ''Description''),
      (''Rate'', std_get r ''Rate''), (''Source'', std_get r ''Source''),
      (''Reference ID'', std_get r ''Reference ID''), (''Usage unit'', std_get r ''Usage unit''),
      (''Purchase Rate'', std_get r ''Purchase Rate''),
      (''Purchase Account'', std_get r ''Purchase Account''), (''Vendor'', std_get r ''Vendor''),
      (''Item Type'', std_get r ''Item Type''),
      (''Is Combo Product'', std_get r ''Is Combo Product''),
      (''CF.Manufacturer'', std_get r ''CF.Manufacturer''), (''CF.URL'', std_get r ''CF.URL''),
      (''CF.Markup'', std_get r ''CF.Markup''), (''CF.Description'', std_get r ''CF.Description''),
      (''CF.Supplier'', std_get r ''CF.Supplier''), (''CF.Material'', std_get r ''CF.Material''),
      (''CF.Cost'', std_get r ''CF.Cost'')]"
proof -
  have "r = map (\<lambda>k. (k, std_get r k)) STANDARD_HEADERS"
    using assms STANDARD_HEADERS_distinct by (rule row_as_map)
  then show ?thesis unfolding STANDARD_HEADERS_def list.map .
qed


text \<open>
  Claim C7, amended. The standardizer is a function of its input, so two runs on the same
  flat product give the same row. Applied to its own output it returns a row again, with
  Purchase Rate, Reference ID and CF.Description emptied (the field mapper sends these
  three headers to Rate, Item ID and Description, which take the value when they are
  empty) and every other column kept; the second row equals the first exactly when these
  three columns of the first row are empty.
\<close>

theorem restandardize_row:
  assumes "standardize_record p = Inr r"
  shows "\<exists>r2. standardize_record (to_record r) = Inr r2
     \<and> std_get r2 ''Purchase Rate'' = [] \<and> std_get r2 ''Reference ID'' = []
     \<and> std_get r2 ''CF.Description'' = []
     \<and> std_get r2 ''Item ID'' =
          (if std_get r ''Item ID'' = [] then std_get r ''Reference ID'' else std_get r ''Item ID'')
     \<and> std_get r2 ''Rate'' =
          (if std_get r ''Rate'' = [] then std_get r ''Purchase Rate'' else std_get r ''Rate'')
     \<and> std_get r2 ''Description'' =
          (if std_get r ''Description'' = [] then std_get r ''CF.Description''
           else std_get r ''Description'')
     \<and> (\<forall>c. c \<notin> set [''Purchase Rate'', ''Reference ID'', ''CF.Description'', ''Item ID'',
                        ''Rate'', ''Description''] \<longrightarrow> std_get r2 c = std_get r c)
     \<and> (r2 = r \<longleftrightarrow> std_get r ''Purchase Rate'' = [] \<and> std_get r ''Reference ID'' = []
                    \<and> std_get r ''CF.Description'' = [])"
proof -
  from assms have keys: "map fst r = STANDARD_HEADERS"
    using row_keys_standardize by (simp add: row_keys_def)
  define a1 where "a1 = std_get r ''Item ID''"
  define a2 where "a2 = std_get r ''Item Name''"
  define a3 where "a3 = std_get r ''SKU''"
  define a4 where "a4 = std_get r ''Description''"
  define a5 where "a5 = std_get r ''Rate''"
  define a6 where "a6 = std_get r ''Source''"
  define a7 where "a7 = std_get r ''Reference ID''"
  define a8 where "a8 = std_get r ''Usage unit''"
  define a9 where "a9 = std_get r ''Purchase Rate''"
  define a10 where "a10 = std_get r ''Purchase Account''"
  define a11 where "a11 = std_get r ''Vendor''"
  define a12 where "a12 = std_get r ''Item Type''"
  define a13 where "a13 = std_get r ''Is Combo Product''"
  define a14 where "a14 = std_get r ''CF.Manufacturer''"
  define a15 where "a15 = std_get r ''CF.URL''"
  define a16 where "a16 = std_get r ''CF.Markup''"
  define a17 where "a17 = std_get r ''CF.Description''"
  define a18 where "a18 = std_get r ''CF.Supplier''"
  define a19 where "a19 = std_get r ''CF.Material''"
  define a20 where "a20 = std_get r ''CF.Cost''"
  note defs = a1_def a2_def a3_def a4_def a5_def a6_def a7_def a8_def a9_def a10_def
    a11_def a12_def a13_def a14_def a15_def a16_def a17_def a18_def a19_def a20_def
  have E: "r = [(''Item ID'', a1), (''Item Name'', a2), (''SKU'', a3),
      (''Description'', a4), (''Rate'', a5), (''Source'', a6),
      (''Reference ID'', a7), (''Usage unit'', a8), (''Purchase Rate'', a9),
      (''Purchase Account'', a10), (''Vendor'', a11), (''Item Type'', a12),
      (''Is Combo Product'', a13), (''CF.Manufacturer'', a14), (''CF.URL'', a15),
      (''CF.Markup'', a16), (''CF.Description'', a17), (''CF.Supplier'', a18),
      (''CF.Material'', a19), (''CF.Cost'', a20)]"
    unfolding defs by (rule row_explicit [OF keys])
  have c: "a6 = ''HD''" "a10 = ''HD''" "a11 = ''HD''" "a16 = ''43%''" "a18 = ''HD''"
    unfolding defs using standardize_record_constant [OF assms]
    by (simp_all add: is_constant_column_def)
  let ?r2 = "[(''Item ID'', if a1 = [] then a7 else a1), (''Item Name'', a2), (''SKU'', a3),
      (''Description'', if a4 = [] then a17 else a4), (''Rate'', if a5 = [] then a9 else a5),
      (''Source'', ''HD''), (''Reference ID'', []), (''Usage unit'', a8),
      (''Purchase Rate'', []), (''Purchase Account'', ''HD''), (''Vendor'', ''HD''),
      (''Item Type'', a12), (''Is Combo Product'', a13), (''CF.Manufacturer'', a14),
      (''CF.URL'', a15), (''CF.Markup'', ''43%''), (''CF.Description'', []),
      (''CF.Supplier'', ''HD''), (''CF.Material'', a19), (''CF.Cost'', a20)]"
  have s: "standardize_record (to_record r) = Inr ?r2"
    unfolding E by (rule restandardize_explicit)
  have g: "std_get ?r2 ''Purchase Rate'' = []" "std_get ?r2 ''Reference ID'' = []"
    "std_get ?r2 ''CF.Description'' = []"
    "std_get ?r2 ''Item ID'' = (if a1 = [] then a7 else a1)"
    "std_get ?r2 ''Rate'' = (if a5 = [] then a9 else a5)"
    "std_get ?r2 ''Description'' = (if a4 = [] then a17 else a4)"
    by (simp_all add: std_get_Cons)
  have f: "\<forall>c. c \<notin> set [''Purchase Rate'', ''Reference ID'', ''CF.Description'', ''Item ID'',
                        ''Rate'', ''Description''] \<longrightarrow> std_get ?r2 c = std_get r c"
    unfolding E using c by (simp add: std_get_Cons)
  have e: "?r2 = r \<longleftrightarrow> a9 = [] \<and> a7 = [] \<and> a17 = []"
    unfolding E using c by auto
  show ?thesis
    using s g f e unfolding defs [symmetric] by (intro exI [of _ ?r2]) simp
qed


theorem restandardize_row_witness:
  "standardize_record hammer = Inr hammer_row
   \<and> std_get (projr (standardize_record (to_record hammer_row))) ''Purchase Rate'' = []
   \<and> std_get (projr (standardize_record (to_record hammer_row))) ''Item ID'' = ''42''"
proof -
  from restandardize_row [OF hammer_standardized] obtain r2 where
    "standardize_record (to_record hammer_row) = Inr r2"
    "std_get r2 ''Purchase Rate'' = []"
    "std_get r2 ''Item ID'' =
       (if std_get hammer_row ''Item ID'' = [] then std_get hammer_row ''Reference ID''
        else std_get hammer_row ''Item ID'')"
    by blast
  moreover have "std_get hammer_row ''Item ID'' = ''42''"
    by (simp add: hammer_row_def std_get_def)
  ultimately show ?thesis using hammer_standardized by simp
qed

text \<open>
  Claim C7 as stated fails: the row of a record with a price has Purchase Rate 5, and the
  row of that row has an empty Purchase Rate.
\<close>

theorem restandardize_changes_row:
  "standardize_record [(''price'', JInt 5)] =
     Inr [(''Item ID'', []), (''Item Name'', []), (''SKU'', []), (''Description'', []),
          (''Rate'', ''5''), (''Source'', ''HD''), (''Reference ID'', []), (''Usage unit'', []),
          (''Purchase Rate'', ''5''), (''Purchase Account'', ''HD''), (''Vendor'', ''HD''),
          (''Item Type'', []), (''Is Combo Product'', []), (''CF.Manufacturer'', []),
          (''CF.URL'', []), (''CF.Markup'', ''43%''), (''CF.Description'', []),
          (''CF.Supplier'', ''HD''), (''CF.Material'', []), (''CF.Cost'', ''5'')]
   \<and> standardize_record (to_record
         [(''Item ID'', []), (''Item Name'', []), (''SKU'', []), (''Description'', []),
          (''Rate'', ''5''), (''Source'', ''HD''), (''Reference ID'', []), (''Usage unit'', []),
          (''Purchase Rate'', ''5''), (''Purchase Account'', ''HD''), (''Vendor'', ''HD''),
          (''Item Type'', []), (''Is Combo Product'', []), (''CF.Manufacturer'', []),
          (''CF.URL'', []), (''CF.Markup'', ''43%''), (''CF.Description'', []),
          (''CF.Supplier'', ''HD''), (''CF.Material'', []), (''CF.Cost'', ''5'')]) =
     Inr [(''Item ID'', []), (''Item Name'', []), (''SKU'', []), (''Description'', []),
          (''Rate'', ''5''), (''Source'', ''HD''), (''Reference ID'', []), (''Usage unit'', []),
          (''Purchase Rate'', []), (''Purchase Account'', ''HD''), (''Vendor'', ''HD''),
          (''Item Type'', []), (''Is Combo Product'', []), (''CF.Manufacturer'', []),
          (''CF.URL'', []), (''CF.Markup'', ''43%''), (''CF.Description'', []),
          (''CF.Supplier'', ''HD''), (''CF.Material'', []), (''CF.Cost'', ''5'')]"
  by code_simp

section \<open>Properties of the batch orchestrator\<close>

lemma standardize_item_count:
  "record_count st = length (standardized_data st) \<Longrightarrow>
   record_count (standardize_item now p item st) = length (standardized_data (standardize_item now p item st))"
  by (simp add: standardize_item_def Let_def split: sum.splits)

lemma process_items_count:
  "record_count st = length (standardized_data st) \<Longrightarrow>
   record_count (process_items now p items st) = length (standardized_data (process_items now p items st))"
  by (induction items arbitrary: st) (auto simp: standardize_item_count split: json.splits)

lemma process_document_count:
  "record_count st = length (standardized_data st) \<Longrightarrow>
   record_count (process_document now p doc st) = length (standardized_data (process_document now p doc st))"
  by (auto simp: process_document_def reading_error_def standardize_item_count process_items_count
      Let_def split: sum.splits option.splits json.splits)

lemma process_json_file_count:
  "record_count (process_json_file now p content k) =
   length (standardized_data (process_json_file now p content k))"
  by (auto simp: process_json_file_def Let_def empty_result_def reading_error_def parsing_error_def
      intro!: process_document_count split: file_state.splits)


lemma complete_file_csv_ok: "csv_ok st \<Longrightarrow> csv_ok (complete_file now bs file st)"
  by (auto simp: csv_ok_def complete_file_def Let_def process_json_file_count)

lemma run_files_csv_ok: "csv_ok st \<Longrightarrow> csv_ok (run_files now bs files st)"
  by (induction files arbitrary: st) (simp_all add: complete_file_csv_ok)


lemma csv_ok_initial:
  "csv_ok \<lparr>stats = initial_stats, all_errors = [], known_records = k, temp_data = [],
           written = [STANDARD_HEADERS, writerow blank_row]\<rparr>"
  by (simp add: csv_ok_def initial_stats_def)

lemma writerow_blank: "writerow blank_row = replicate 20 []"
  by code_simp

lemma csv_ok_rows:
  assumes "csv_ok st"
  shows "\<exists>rows. written st @ map writerow (temp_data st) = STANDARD_HEADERS # writerow blank_row # rows
          \<and> length rows = records_processed (stats st)"
proof -
  from assms have t: "take 2 (written st) = [STANDARD_HEADERS, writerow blank_row]"
    and l: "length (written st) + length (temp_data st) = records_processed (stats st) + 2"
    and g: "2 \<le> length (written st)"
    by (simp_all add: csv_ok_def)
  have "written st = take 2 (written st) @ drop 2 (written st)" by simp
  with t have w: "written st = STANDARD_HEADERS # writerow blank_row # drop 2 (written st)" by simp
  let ?rows = "drop 2 (written st) @ map writerow (temp_data st)"
  from w have "written st @ map writerow (temp_data st) = STANDARD_HEADERS # writerow blank_row # ?rows"
    by (metis append_Cons)
  moreover from l g have "length ?rows = records_processed (stats st)" by simp
  ultimately show ?thesis by blast
qed

text \<open>
  Claim C9. Every run of \<open>combine_json_to_csv\<close> that has files to process, and so opens
  the output file, writes the header row, then one row of twenty empty cells, then the
  data rows; \<open>records_processed\<close> is the number of data rows, the blank row not counted.
\<close>

theorem blank_row_after_header:
  assumes "json_files \<noteq> []"
  shows "\<exists>rows.
      snd (combine_json_to_csv now input_text json_files batch_size skip_duplicates)
        = Some (STANDARD_HEADERS # replicate 20 [] # rows)
      \<and> records_processed (fst (combine_json_to_csv now input_text json_files batch_size skip_duplicates))
        = length rows"
proof -
  let ?st0 = "\<lparr>stats = initial_stats, all_errors = [],
                known_records = (if skip_duplicates then Some [] else None), temp_data = [],
                written = [STANDARD_HEADERS, writerow blank_row]\<rparr>"
  let ?st = "run_files now batch_size json_files ?st0"
  have "csv_ok ?st" by (intro run_files_csv_ok csv_ok_initial)
  then obtain rows where
    "written ?st @ map writerow (temp_data ?st) = STANDARD_HEADERS # writerow blank_row # rows"
    "length rows = records_processed (stats ?st)"
    using csv_ok_rows by blast
  then show ?thesis using assms
    by (intro exI [of _ rows]) (simp add: combine_json_to_csv_def batch_run_def Let_def writerow_blank)
qed


lemma one_file_csv:
  "snd (combine_json_to_csv ''1700000000.0'' ''data/*.json'' [hammer_file] 10000 True)
   = Some [STANDARD_HEADERS, replicate 20 [], writerow hammer_row]"
  by code_simp

theorem blank_row_after_header_witness:
  "[hammer_file] \<noteq> []
   \<and> snd (combine_json_to_csv ''1700000000.0'' ''data/*.json'' [hammer_file] 10000 True)
       = Some [STANDARD_HEADERS, replicate 20 [], writerow hammer_row]
   \<and> records_processed (fst (combine_json_to_csv ''1700000000.0'' ''data/*.json'' [hammer_file] 10000 True)) = 1"
proof -
  have ne: "[hammer_file] \<noteq> []" by simp
  from blank_row_after_header [OF ne, of "''1700000000.0''" "''data/*.json''" 10000 True]
  obtain rows where
    r: "snd (combine_json_to_csv ''1700000000.0'' ''data/*.json'' [hammer_file] 10000 True)
        = Some (STANDARD_HEADERS # replicate 20 [] # rows)"
    and n: "records_processed (fst (combine_json_to_csv ''1700000000.0'' ''data/*.json'' [hammer_file] 10000 True))
        = length rows"
    by blast
  from r one_file_csv have "rows = [writerow hammer_row]" by simp
  with n one_file_csv show ?thesis by simp
qed












section \<open>Description enrichment: the web conversion and the batch\<close>























section \<open>Duplicate suppression under interleaving\<close>





















end
